theory Spec2Isabelle
  imports Complex_Main "HOL-Library.AList"
begin

section \<open>Errors raised by the module\<close>

text \<open>
  Every exception the modelled code raises is a value. The constructors name the raise
  sites; the Spanish message of each is given beside it (accents dropped).
\<close>

datatype error =
    Expected_singleton
      \<comment> \<open>ValueError of the framework: a field read on a recordset of several records\<close>
  | Review_already_invoiced
      \<comment> \<open>UserError: Esta revision ya tiene una factura generada\<close>
  | No_pages_to_bill
      \<comment> \<open>UserError: No hay impresoras con paginas para facturar\<close>
  | Review_without_lines
      \<comment> \<open>UserError: Debe tener al menos una impresora en la revision\<close>
  | Cancel_invoiced
      \<comment> \<open>UserError: No se puede cancelar una revision que ya tiene factura generada\<close>
  | Draft_with_invoice
      \<comment> \<open>UserError: No se puede volver a borrador una revision con factura\<close>
  | Recalculate_not_draft
      \<comment> \<open>UserError: Solo se pueden recalcular revisiones en borrador\<close>
  | No_partner_selected
      \<comment> \<open>UserError: Debe seleccionar un cliente\<close>
  | No_usage_data
      \<comment> \<open>UserError: No hay datos de uso para el periodo seleccionado\<close>
  | Counter_start_negative int
      \<comment> \<open>ValidationError: El contador inicial no puede ser negativo\<close>
  | Counter_end_negative int
      \<comment> \<open>ValidationError: El contador final no puede ser negativo\<close>
  | Counter_end_below_start int int
      \<comment> \<open>ValidationError: El contador final no puede ser menor que el inicial\<close>
  | Json_decode_error
      \<comment> \<open>\<^verbatim>\<open>json.loads\<close> on a body that is not JSON\<close>
  | Attribute_error
      \<comment> \<open>AttributeError: a method such as \<^verbatim>\<open>get\<close> or \<^verbatim>\<open>replace\<close> on a value that lacks it\<close>
  | Type_error
      \<comment> \<open>TypeError: iterating or converting a value of the wrong type\<close>
  | Value_error
      \<comment> \<open>ValueError: \<^verbatim>\<open>int\<close> of a string that is no number\<close>
  | Orm_error
      \<comment> \<open>any exception the framework raises from a search, a create or a write\<close>

section \<open>JSON values\<close>

text \<open>
  The payloads of the synchronisation API are JSON documents; a JSON object keeps its
  members in order. Numbers are integers here (no result depends on a fraction).
\<close>

datatype json =
    JNull
  | JBool bool
  | JNum int
  | JStr string
  | JArr "json list"
  | JObj "(string \<times> json) list"

section \<open>Counter readings (models/printer\_reading.py)\<close>

text \<open>
  A \<^verbatim>\<open>Datetime\<close> of the framework is a naive timestamp without sub-second part; it is
  modelled as the number of seconds since the epoch, a \<^verbatim>\<open>Date\<close> as the number of days.
\<close>

type_synonym datetime = int
type_synonym date = int

text \<open>The constant \<^verbatim>\<open>'Sin ubicacion'\<close>; its accented o is the two bytes of UTF-8.\<close>

definition sin_ubicacion :: string where
  "sin_ubicacion = ''Sin ubicaci'' @ [char_of (0xC3::nat), char_of (0xB3::nat)] @ ''n''"

record counter_type =
  ct_id :: nat
  ct_oid :: string
  ct_code :: "string option"
  ct_name :: string

text \<open>
  A \<^verbatim>\<open>printer.reading.counter\<close> row. Its related fields \<^verbatim>\<open>oid\<close> and
  \<^verbatim>\<open>counter_code\<close> are those of its counter type.
\<close>

record reading_counter =
  rc_counter_type_id :: counter_type
  rc_value :: int

record printer_reading =
  reading_id :: nat
  reading_printer_id :: nat
  reading_partner_id :: nat
  reading_timestamp :: datetime
  reading_status :: json
  reading_counter_ids :: "reading_counter list"
  is_billed :: bool
  reading_invoice_id :: "nat option"
  billed_date :: "datetime option"

record printer_location =
  location_id :: nat
  location_name :: string
  location_partner_id :: nat
  access_token :: "string option"
  token_active :: bool
  is_active :: bool
  token_last_used :: "datetime option"
  token_requests_count :: nat
  location_last_sync :: "datetime option"
  location_sync_status :: string

text \<open>
  A \<^verbatim>\<open>printer.device\<close> row: its id, the stored computed name, the location and the
  partner inherited from it, and the remaining columns (IP address, MAC address, serial
  number and so on) under their field names, as the synchronisation last wrote them.
\<close>

record printer_device =
  printer_id :: nat
  printer_name :: string
  printer_partner_id :: nat
  printer_location_id :: "nat option"
  printer_fields :: "(string \<times> json) list"

record partner_counter_price =
  pcp_partner_id :: nat
  pcp_counter_type_id :: nat
  pcp_unit_price :: rat

text \<open>
  The text of an invoice line is kept as the data it is rendered from (the rendering of
  dates and thousands separators is left out): for a line per location the location
  name, the period, the pages per counter name, the printer names and the review
  reference; for a line per printer the printer name, the location, the period, the
  counters (name, start, end, pages), the total pages, the review reference and the notes.
\<close>

datatype description =
    Location_text string date date "(string \<times> int) list" "string list" string
  | Printer_text string string date date "(string \<times> int \<times> int \<times> int) list" int string
      "string option"

record invoice_line =
  il_name :: description
  il_quantity :: int
  il_price_unit :: rat

record account_move =
  move_id :: nat
  move_partner_id :: nat
  move_type :: string
  invoice_date :: date
  invoice_line_ids :: "invoice_line list"

text \<open>
  Consumables and alerts, written by the synchronisation only; the values the API takes
  from the payload without conversion are kept as the JSON they came in.
\<close>

record printer_consumable =
  consumable_id :: nat
  consumable_printer_id :: nat
  supply_name :: json
  consumable_vals :: "(string \<times> json) list"

record printer_alert =
  alert_id :: nat
  alert_printer_id :: nat
  alert_type :: json
  severity :: string
  alert_message :: json
  alert_timestamp :: datetime
  resolved :: bool
  resolved_at :: json

text \<open>The database: one list of rows per model, in the order searches return them.\<close>

record env =
  printer_device_table :: "printer_device list"
  printer_reading_table :: "printer_reading list"
  printer_location_table :: "printer_location list"
  partner_counter_price_table :: "partner_counter_price list"
  account_move_table :: "account_move list"
  counter_type_table :: "counter_type list"
  printer_consumable_table :: "printer_consumable list"
  printer_alert_table :: "printer_alert list"

text \<open>
  The argument \<^verbatim>\<open>date_to\<close> is either a datetime or a plain date; in both cases the
  period is extended to the end of that day.
\<close>

datatype date_arg = Datetime_arg datetime | Date_arg date

definition date_to_end :: "date_arg \<Rightarrow> datetime" where
  "date_to_end date_to =
     (case date_to of
        Datetime_arg t \<Rightarrow> (t div 86400) * 86400 + 86399
      | Date_arg d \<Rightarrow> d * 86400 + 86399)"

text \<open>
  Recordsets of counter types are lists without repeated ids; \<^verbatim>\<open>|\<close> appends the
  records not yet present, and \<^verbatim>\<open>mapped('counter_type_id')\<close> is the union of the
  types of the counters.
\<close>

definition rs_add :: "counter_type list \<Rightarrow> counter_type \<Rightarrow> counter_type list" where
  "rs_add acc ct = (if ct_id ct \<in> ct_id ` set acc then acc else acc @ [ct])"

definition rs_union :: "counter_type list \<Rightarrow> counter_type list \<Rightarrow> counter_type list" where
  "rs_union xs ys = foldl rs_add xs ys"

definition mapped_counter_type_id :: "reading_counter list \<Rightarrow> counter_type list" where
  "mapped_counter_type_id cs = rs_union [] (map rc_counter_type_id cs)"

text \<open>
  \<^verbatim>\<open>get_counter_value\<close>: the counters of the reading whose OID or code is the given
  string; the value of the one found, 0 when there is none. Reading \<^verbatim>\<open>value\<close> on
  several records raises.
\<close>

definition get_counter_value :: "printer_reading \<Rightarrow> string \<Rightarrow> error + int" where
  "get_counter_value self oid_or_code =
     (case filter (\<lambda>c. ct_oid (rc_counter_type_id c) = oid_or_code
                       \<or> ct_code (rc_counter_type_id c) = Some oid_or_code)
             (reading_counter_ids self) of
        [] \<Rightarrow> Inr 0
      | [counter] \<Rightarrow> Inr (rc_value counter)
      | _ \<Rightarrow> Inl Expected_singleton)"

text \<open>The two searches of \<^verbatim>\<open>calculate_usage_by_printer\<close>, ordered by timestamp.\<close>

definition readings_in_period ::
  "env \<Rightarrow> nat \<Rightarrow> datetime \<Rightarrow> datetime \<Rightarrow> printer_reading list" where
  "readings_in_period e pid date_from date_to_e =
     sort_key reading_timestamp
       (filter (\<lambda>r. reading_printer_id r = pid
                     \<and> date_from \<le> reading_timestamp r
                     \<and> reading_timestamp r \<le> date_to_e)
          (printer_reading_table e))"

definition previous_reading :: "env \<Rightarrow> nat \<Rightarrow> datetime \<Rightarrow> printer_reading option" where
  "previous_reading e pid date_from =
     (case rev (sort_key reading_timestamp
                  (filter (\<lambda>r. reading_printer_id r = pid \<and> reading_timestamp r < date_from)
                     (printer_reading_table e))) of
        [] \<Rightarrow> None
      | r # _ \<Rightarrow> Some r)"

definition counter_types_in_period :: "printer_reading list \<Rightarrow> counter_type list" where
  "counter_types_in_period rs =
     foldl (\<lambda>acc reading. rs_union acc (mapped_counter_type_id (reading_counter_ids reading)))
       [] rs"

record counter_data =
  cd_counter_type_id :: nat
  cd_counter_type :: counter_type
  cd_oid :: string
  cd_code :: "string option"
  cd_name :: string
  cd_counter_start :: int
  cd_counter_end :: int
  cd_total_pages :: int

record printer_usage =
  pu_printer :: printer_device
  pu_printer_name :: string
  pu_location :: string
  pu_counters :: "counter_data list"

definition make_counter_data :: "counter_type \<Rightarrow> int \<Rightarrow> int \<Rightarrow> counter_data" where
  "make_counter_data ct first_value last_value =
     \<lparr>cd_counter_type_id = ct_id ct,
      cd_counter_type = ct,
      cd_oid = ct_oid ct,
      cd_code = ct_code ct,
      cd_name = ct_name ct,
      cd_counter_start = first_value,
      cd_counter_end = last_value,
      cd_total_pages = max 0 (last_value - first_value)\<rparr>"

text \<open>
  The body of the loop over the counter types of one printer: \<^verbatim>\<open>None\<close> is the
  \<^verbatim>\<open>continue\<close> taken when no reading of the period carries the type.
\<close>

definition counter_usage ::
  "env \<Rightarrow> printer_device \<Rightarrow> printer_reading list \<Rightarrow> datetime \<Rightarrow> counter_type
     \<Rightarrow> error + counter_data option" where
  "counter_usage e printer rs_in_period date_from ct =
     (let readings_with_counter =
            filter (\<lambda>r. ct_id ct \<in> ct_id ` set (mapped_counter_type_id (reading_counter_ids r)))
              rs_in_period
      in if readings_with_counter = [] then Inr None
         else
           (case get_counter_value (last readings_with_counter) (ct_oid ct) of
              Inl err \<Rightarrow> Inl err
            | Inr last_value \<Rightarrow>
                (case previous_reading e (printer_id printer) date_from of
                   Some prev \<Rightarrow>
                     (case get_counter_value prev (ct_oid ct) of
                        Inl err \<Rightarrow> Inl err
                      | Inr first_value \<Rightarrow> Inr (Some (make_counter_data ct first_value last_value)))
                 | None \<Rightarrow> Inr (Some (make_counter_data ct 0 last_value)))))"

text \<open>
  Both loops of \<^verbatim>\<open>calculate_usage_by_printer\<close> append one entry per iteration to a
  result list, skip an iteration with \<^verbatim>\<open>continue\<close>, and are left by the first
  exception. \<^verbatim>\<open>None\<close> is an iteration that appends nothing.
\<close>

fun for_each_append :: "('a \<Rightarrow> error + 'b option) \<Rightarrow> 'a list \<Rightarrow> error + 'b list" where
  "for_each_append body [] = Inr []"
| "for_each_append body (x # xs) =
     (case body x of
        Inl err \<Rightarrow> Inl err
      | Inr None \<Rightarrow> for_each_append body xs
      | Inr (Some y) \<Rightarrow>
          (case for_each_append body xs of
             Inl err \<Rightarrow> Inl err
           | Inr ys \<Rightarrow> Inr (y # ys)))"

definition location_display :: "env \<Rightarrow> printer_device \<Rightarrow> string" where
  "location_display e printer =
     (case printer_location_id printer of
        None \<Rightarrow> sin_ubicacion
      | Some lid \<Rightarrow>
          (case find (\<lambda>l. location_id l = lid) (printer_location_table e) of
             Some l \<Rightarrow> location_name l
           | None \<Rightarrow> []))"

text \<open>The body of the loop over the printers of the partner.\<close>

definition printer_usage_of ::
  "env \<Rightarrow> datetime \<Rightarrow> datetime \<Rightarrow> printer_device \<Rightarrow> error + printer_usage option" where
  "printer_usage_of e date_from date_to_e printer =
     (let rs = readings_in_period e (printer_id printer) date_from date_to_e
      in if rs = [] then Inr None
         else
           (let cts = counter_types_in_period rs
            in if cts = [] then Inr None
               else
                 (case for_each_append (counter_usage e printer rs date_from) cts of
                    Inl err \<Rightarrow> Inl err
                  | Inr counters_data \<Rightarrow>
                      Inr (if counters_data = [] then None
                           else Some \<lparr>pu_printer = printer,
                                      pu_printer_name = printer_name printer,
                                      pu_location = location_display e printer,
                                      pu_counters = counters_data\<rparr>))))"

text \<open>
  The printers of the partner are visited in the order the search returns them (the
  table order here; the framework sorts them by name, which no result below depends on).
\<close>

definition calculate_usage_by_printer ::
  "env \<Rightarrow> nat \<Rightarrow> datetime \<Rightarrow> date_arg \<Rightarrow> error + printer_usage list" where
  "calculate_usage_by_printer e partner_id date_from date_to =
     for_each_append (printer_usage_of e date_from (date_to_end date_to))
       (filter (\<lambda>p. printer_partner_id p = partner_id) (printer_device_table e))"

section \<open>What the usage calculation is expected to return\<close>

text \<open>
  The notions below follow the wording of the specification, not the code: the readings
  of a printer inside and before the period as sets, the value a reading holds for a
  counter type, and what it means for a value to be the final and the initial counter of
  a period. The period ends at \<^verbatim>\<open>date_to_e\<close>, the end of the day of \<^verbatim>\<open>date_to\<close>.
\<close>

definition period_readings :: "env \<Rightarrow> nat \<Rightarrow> datetime \<Rightarrow> datetime \<Rightarrow> printer_reading set" where
  "period_readings e pid date_from date_to_e =
     {r \<in> set (printer_reading_table e).
        reading_printer_id r = pid \<and> date_from \<le> reading_timestamp r
        \<and> reading_timestamp r \<le> date_to_e}"

definition earlier_readings :: "env \<Rightarrow> nat \<Rightarrow> datetime \<Rightarrow> printer_reading set" where
  "earlier_readings e pid date_from =
     {r \<in> set (printer_reading_table e).
        reading_printer_id r = pid \<and> reading_timestamp r < date_from}"

definition carries :: "printer_reading \<Rightarrow> nat \<Rightarrow> bool" where
  "carries r ctid \<longleftrightarrow> ctid \<in> (\<lambda>c. ct_id (rc_counter_type_id c)) ` set (reading_counter_ids r)"

definition counter_value_of :: "printer_reading \<Rightarrow> nat \<Rightarrow> int" where
  "counter_value_of r ctid =
     (case find (\<lambda>c. ct_id (rc_counter_type_id c) = ctid) (reading_counter_ids r) of
        Some c \<Rightarrow> rc_value c
      | None \<Rightarrow> 0)"

definition is_final_value :: "env \<Rightarrow> nat \<Rightarrow> datetime \<Rightarrow> datetime \<Rightarrow> nat \<Rightarrow> int \<Rightarrow> bool" where
  "is_final_value e pid date_from date_to_e ctid v \<longleftrightarrow>
     (\<exists>r\<in>period_readings e pid date_from date_to_e.
        carries r ctid
        \<and> (\<forall>r'\<in>period_readings e pid date_from date_to_e.
              carries r' ctid \<longrightarrow> reading_timestamp r' \<le> reading_timestamp r)
        \<and> v = counter_value_of r ctid)"

definition is_initial_value :: "env \<Rightarrow> nat \<Rightarrow> datetime \<Rightarrow> nat \<Rightarrow> int \<Rightarrow> bool" where
  "is_initial_value e pid date_from ctid v \<longleftrightarrow>
     (if earlier_readings e pid date_from = {} then v = 0
      else (\<exists>r\<in>earlier_readings e pid date_from.
              (\<forall>r'\<in>earlier_readings e pid date_from. reading_timestamp r' \<le> reading_timestamp r)
              \<and> v = counter_value_of r ctid))"

definition all_counter_types :: "env \<Rightarrow> counter_type set" where
  "all_counter_types e =
     (\<Union>r\<in>set (printer_reading_table e). rc_counter_type_id ` set (reading_counter_ids r))"

definition wf_counter_types :: "env \<Rightarrow> bool" where
  "wf_counter_types e \<longleftrightarrow>
     (\<forall>a\<in>all_counter_types e. \<forall>b\<in>all_counter_types e. ct_id a = ct_id b \<longrightarrow> a = b)
     \<and> (\<forall>a\<in>all_counter_types e. \<forall>b\<in>all_counter_types e. ct_oid a = ct_oid b \<longrightarrow> ct_id a = ct_id b)
     \<and> (\<forall>a\<in>all_counter_types e. \<forall>b\<in>all_counter_types e.
           ct_code a = Some (ct_oid b) \<longrightarrow> ct_id a = ct_id b)
     \<and> (\<forall>r\<in>set (printer_reading_table e).
           distinct (map (\<lambda>c. ct_id (rc_counter_type_id c)) (reading_counter_ids r)))"

definition counter_entry_ok :: "env \<Rightarrow> nat \<Rightarrow> datetime \<Rightarrow> datetime \<Rightarrow> counter_data \<Rightarrow> bool" where
  "counter_entry_ok e pid date_from date_to_e cd \<longleftrightarrow>
     is_final_value e pid date_from date_to_e (cd_counter_type_id cd) (cd_counter_end cd)
     \<and> is_initial_value e pid date_from (cd_counter_type_id cd) (cd_counter_start cd)
     \<and> cd_total_pages cd = max 0 (cd_counter_end cd - cd_counter_start cd)"

definition has_counters_in_period :: "env \<Rightarrow> datetime \<Rightarrow> datetime \<Rightarrow> printer_device \<Rightarrow> bool" where
  "has_counters_in_period e date_from date_to_e p \<longleftrightarrow>
     (\<exists>r\<in>period_readings e (printer_id p) date_from date_to_e. reading_counter_ids r \<noteq> [])"

definition usage_entry_ok :: "env \<Rightarrow> datetime \<Rightarrow> datetime \<Rightarrow> printer_usage \<Rightarrow> bool" where
  "usage_entry_ok e date_from date_to_e u \<longleftrightarrow>
     distinct (map cd_counter_type_id (pu_counters u))
     \<and> cd_counter_type_id ` set (pu_counters u)
         = {ctid. \<exists>r\<in>period_readings e (printer_id (pu_printer u)) date_from date_to_e. carries r ctid}
     \<and> (\<forall>cd\<in>set (pu_counters u).
           counter_entry_ok e (printer_id (pu_printer u)) date_from date_to_e cd)"

section \<open>Customer prices (models/partner\_counter\_price.py)\<close>

definition get_price_for_partner_counter :: "env \<Rightarrow> nat \<Rightarrow> nat \<Rightarrow> rat" where
  "get_price_for_partner_counter e partner_id counter_type_id =
     (case filter (\<lambda>p. pcp_partner_id p = partner_id \<and> pcp_counter_type_id p = counter_type_id)
             (partner_counter_price_table e) of
        [] \<Rightarrow> 0
      | price_record # _ \<Rightarrow> pcp_unit_price price_record)"

section \<open>Billing reviews (models/printer\_billing\_review*.py)\<close>

subsection \<open>Counters of a review line\<close>

record review_counter =
  rvc_counter_type_id :: nat
  rvc_counter_name :: string
  rvc_counter_start :: int
  rvc_counter_end :: int
  rvc_unit_price :: rat

text \<open>
  \<^verbatim>\<open>_compute_totals\<close> of \<^verbatim>\<open>printer.billing.review.counter\<close> assigns the two stored
  fields \<^verbatim>\<open>total_pages\<close> and \<^verbatim>\<open>subtotal\<close>. Amounts are exact rationals: the binary
  floating point of the source and the rounding of stored monetary values are left out.
\<close>

definition rvc_total_pages :: "review_counter \<Rightarrow> int" where
  "rvc_total_pages record = max 0 (rvc_counter_end record - rvc_counter_start record)"

definition rvc_subtotal :: "review_counter \<Rightarrow> rat" where
  "rvc_subtotal record = of_int (rvc_total_pages record) * rvc_unit_price record"

text \<open>\<^verbatim>\<open>_check_counters_valid\<close>, the constraint the framework runs on create and write.\<close>

definition check_counters_valid :: "review_counter \<Rightarrow> error + unit" where
  "check_counters_valid record =
     (if rvc_counter_start record < 0 then Inl (Counter_start_negative (rvc_counter_start record))
      else if rvc_counter_end record < 0 then Inl (Counter_end_negative (rvc_counter_end record))
      else if rvc_counter_end record < rvc_counter_start record
        then Inl (Counter_end_below_start (rvc_counter_end record) (rvc_counter_start record))
      else Inr ())"

definition create_review_counter :: "review_counter \<Rightarrow> error + review_counter" where
  "create_review_counter vals =
     (case check_counters_valid vals of Inl err \<Rightarrow> Inl err | Inr _ \<Rightarrow> Inr vals)"

subsection \<open>Review lines\<close>

record review_line =
  rl_printer_id :: nat
  rl_printer_name :: string
  rl_location_name :: "string option"
  rl_counter_line_ids :: "review_counter list"
  rl_include_in_invoice :: bool
  rl_notes :: "string option"

text \<open>\<^verbatim>\<open>_compute_totals\<close> of \<^verbatim>\<open>printer.billing.review.line\<close>.\<close>

definition rl_total_pages :: "review_line \<Rightarrow> int" where
  "rl_total_pages line = sum_list (map rvc_total_pages (rl_counter_line_ids line))"

definition rl_estimated_amount :: "review_line \<Rightarrow> rat" where
  "rl_estimated_amount line =
     (if rl_include_in_invoice line then sum_list (map rvc_subtotal (rl_counter_line_ids line))
      else 0)"

subsection \<open>Reviews\<close>

datatype review_state = Draft | Confirmed | Invoiced | Cancelled

record billing_review =
  review_name :: string
  state :: review_state
  review_partner_id :: nat
  review_date_from :: date
  review_date_to :: date
  group_by_location :: bool
  only_not_billed :: bool
  line_ids :: "review_line list"
  invoice_id :: "nat option"
  confirmed_by :: "nat option"
  confirmed_date :: "datetime option"
  invoiced_date :: "datetime option"

text \<open>\<^verbatim>\<open>_compute_totals\<close> of \<^verbatim>\<open>printer.billing.review\<close>.\<close>

definition included_lines :: "billing_review \<Rightarrow> review_line list" where
  "included_lines review = filter rl_include_in_invoice (line_ids review)"

definition total_printers :: "billing_review \<Rightarrow> nat" where
  "total_printers review = length (included_lines review)"

definition total_pages_all :: "billing_review \<Rightarrow> int" where
  "total_pages_all review = sum_list (map rl_total_pages (included_lines review))"


definition action_confirm :: "billing_review \<Rightarrow> nat \<Rightarrow> datetime \<Rightarrow> error + billing_review" where
  "action_confirm self uid now =
     (if line_ids self = [] then Inl Review_without_lines
      else Inr (self\<lparr>state := Confirmed, confirmed_by := Some uid, confirmed_date := Some now\<rparr>))"

subsection \<open>Generating the invoice\<close>

definition lines_to_bill :: "billing_review \<Rightarrow> review_line list" where
  "lines_to_bill self =
     filter (\<lambda>l. rl_include_in_invoice l \<and> rl_total_pages l > 0) (line_ids self)"

text \<open>\<^verbatim>\<open>line.location_name or 'Sin ubicacion'\<close>: an unset or empty name is falsy.\<close>

definition location_key :: "review_line \<Rightarrow> string" where
  "location_key line =
     (case rl_location_name line of
        None \<Rightarrow> sin_ubicacion
      | Some n \<Rightarrow> if n = [] then sin_ubicacion else n)"

text \<open>
  The dictionary \<^verbatim>\<open>by_location\<close> and the dictionary of counters inside each of its
  entries are association lists in insertion order; \<^const>\<open>AList.update\<close> replaces the
  value of a key that is present and appends a new key at the end, as assignment to a
  Python dictionary does.
\<close>

record location_data =
  ld_counters :: "(string \<times> int \<times> rat) list"
  ld_total_amount :: rat
  ld_printers :: "string list"

definition add_counter ::
  "(string \<times> int \<times> rat) list \<Rightarrow> review_counter \<Rightarrow> (string \<times> int \<times> rat) list" where
  "add_counter counters counter =
     (let counter_name = rvc_counter_name counter;
          (pages, amount) = (case map_of counters counter_name of
                               None \<Rightarrow> (0, 0)
                             | Some pa \<Rightarrow> pa)
      in AList.update counter_name
           (pages + rvc_total_pages counter, amount + rvc_subtotal counter) counters)"

definition add_line ::
  "(string \<times> location_data) list \<Rightarrow> review_line \<Rightarrow> (string \<times> location_data) list" where
  "add_line by_location line =
     (let location_name = location_key line;
          data = (case map_of by_location location_name of
                    None \<Rightarrow> \<lparr>ld_counters = [], ld_total_amount = 0, ld_printers = []\<rparr>
                  | Some d \<Rightarrow> d)
      in AList.update location_name
           \<lparr>ld_counters = foldl add_counter (ld_counters data) (rl_counter_line_ids line),
            ld_total_amount = ld_total_amount data + rl_estimated_amount line,
            ld_printers = ld_printers data @ [rl_printer_name line]\<rparr>
           by_location)"

definition group_by_location_lines ::
  "billing_review \<Rightarrow> invoice_line list" where
  "group_by_location_lines self =
     map (\<lambda>(location_name, data).
            \<lparr>il_name = Location_text location_name (review_date_from self) (review_date_to self)
                         (map (\<lambda>(counter_name, pages, amount). (counter_name, pages))
                            (ld_counters data))
                         (ld_printers data) (review_name self),
             il_quantity = 1,
             il_price_unit = ld_total_amount data\<rparr>)
       (foldl add_line [] (lines_to_bill self))"

definition per_printer_lines :: "billing_review \<Rightarrow> invoice_line list" where
  "per_printer_lines self =
     map (\<lambda>line.
            \<lparr>il_name = Printer_text (rl_printer_name line) (location_key line)
                         (review_date_from self) (review_date_to self)
                         (map (\<lambda>counter. (rvc_counter_name counter, rvc_counter_start counter,
                                           rvc_counter_end counter, rvc_total_pages counter))
                            (rl_counter_line_ids line))
                         (rl_total_pages line) (review_name self)
                         (case rl_notes line of
                            None \<Rightarrow> None
                          | Some n \<Rightarrow> if n = [] then None else Some n),
             il_quantity = 1,
             il_price_unit = rl_estimated_amount line\<rparr>)
       (lines_to_bill self)"

text \<open>
  The two writes of \<^verbatim>\<open>action_generate_invoice\<close> outside the review. The invoice is
  created by the accounting module of the host, taken here to succeed with a fresh id.
  A \<^verbatim>\<open>Date\<close> compared with a timestamp stands for the midnight that begins the day.
\<close>

definition to_datetime :: "date \<Rightarrow> datetime" where
  "to_datetime d = d * 86400"

definition create_account_move :: "env \<Rightarrow> nat \<Rightarrow> date \<Rightarrow> invoice_line list \<Rightarrow> env \<times> account_move" where
  "create_account_move e partner today lines =
     (let invoice = \<lparr>move_id = Suc (foldr max (map move_id (account_move_table e)) 0),
                     move_partner_id = partner,
                     move_type = ''out_invoice'',
                     invoice_date = today,
                     invoice_line_ids = lines\<rparr>
      in (e\<lparr>account_move_table := account_move_table e @ [invoice]\<rparr>, invoice))"

definition mark_readings_billed ::
  "env \<Rightarrow> nat \<Rightarrow> date \<Rightarrow> date \<Rightarrow> nat \<Rightarrow> datetime \<Rightarrow> env" where
  "mark_readings_billed e partner date_from date_to invoice now =
     e\<lparr>printer_reading_table :=
         map (\<lambda>r. if reading_partner_id r = partner
                      \<and> to_datetime date_from \<le> reading_timestamp r
                      \<and> reading_timestamp r \<le> to_datetime date_to
                      \<and> \<not> is_billed r
                   then r\<lparr>is_billed := True, reading_invoice_id := Some invoice,
                          billed_date := Some now\<rparr>
                   else r)
           (printer_reading_table e)\<rparr>"

text \<open>
  \<^verbatim>\<open>action_generate_invoice\<close> of the review: the new database, the review after its
  write, and the id of the invoice the returned window action opens.
\<close>

definition action_generate_invoice ::
  "env \<Rightarrow> billing_review \<Rightarrow> date \<Rightarrow> datetime \<Rightarrow> error + env \<times> billing_review \<times> nat" where
  "action_generate_invoice e self today now =
     (if state self = Invoiced then Inl Review_already_invoiced
      else if lines_to_bill self = [] then Inl No_pages_to_bill
      else
        (let (e1, invoice) =
               create_account_move e (review_partner_id self) today
                 (if group_by_location self then group_by_location_lines self
                  else per_printer_lines self);
             e2 = (if only_not_billed self
                   then mark_readings_billed e1 (review_partner_id self) (review_date_from self)
                          (review_date_to self) (move_id invoice) now
                   else e1)
         in Inr (e2,
                 self\<lparr>state := Invoiced, invoice_id := Some (move_id invoice),
                      invoiced_date := Some now\<rparr>,
                 move_id invoice)))"

definition action_cancel :: "billing_review \<Rightarrow> error + billing_review" where
  "action_cancel self =
     (if state self = Invoiced then Inl Cancel_invoiced
      else Inr (self\<lparr>state := Cancelled\<rparr>))"

definition action_set_to_draft :: "billing_review \<Rightarrow> error + billing_review" where
  "action_set_to_draft self =
     (if invoice_id self \<noteq> None then Inl Draft_with_invoice
      else Inr (self\<lparr>state := Draft\<rparr>))"

subsection \<open>Creating the lines of a review from the usage\<close>

text \<open>
  The loop shared by the billing wizard and \<^verbatim>\<open>action_recalculate_all\<close>: one line per
  printer of the usage data, one counter per counter entry, priced for the partner. A
  counter that fails its constraint aborts the whole action.
\<close>

fun create_counters :: "env \<Rightarrow> nat \<Rightarrow> counter_data list \<Rightarrow> error + review_counter list" where
  "create_counters e partner [] = Inr []"
| "create_counters e partner (counter_data # rest) =
     (case create_review_counter
             \<lparr>rvc_counter_type_id = cd_counter_type_id counter_data,
              rvc_counter_name = cd_name counter_data,
              rvc_counter_start = cd_counter_start counter_data,
              rvc_counter_end = cd_counter_end counter_data,
              rvc_unit_price =
                get_price_for_partner_counter e partner (cd_counter_type_id counter_data)\<rparr> of
        Inl err \<Rightarrow> Inl err
      | Inr counter \<Rightarrow>
          (case create_counters e partner rest of
             Inl err \<Rightarrow> Inl err
           | Inr counters \<Rightarrow> Inr (counter # counters)))"

definition related_location_name :: "env \<Rightarrow> printer_device \<Rightarrow> string option" where
  "related_location_name e printer =
     (case printer_location_id printer of
        None \<Rightarrow> None
      | Some lid \<Rightarrow> map_option location_name
                      (find (\<lambda>l. location_id l = lid) (printer_location_table e)))"

fun create_lines :: "env \<Rightarrow> nat \<Rightarrow> printer_usage list \<Rightarrow> error + review_line list" where
  "create_lines e partner [] = Inr []"
| "create_lines e partner (printer_data # rest) =
     (case create_counters e partner (pu_counters printer_data) of
        Inl err \<Rightarrow> Inl err
      | Inr counters \<Rightarrow>
          (case create_lines e partner rest of
             Inl err \<Rightarrow> Inl err
           | Inr lines \<Rightarrow>
               Inr (\<lparr>rl_printer_id = printer_id (pu_printer printer_data),
                     rl_printer_name = printer_name (pu_printer printer_data),
                     rl_location_name = related_location_name e (pu_printer printer_data),
                     rl_counter_line_ids = counters,
                     rl_include_in_invoice = True,
                     rl_notes = None\<rparr> # lines)))"

definition action_recalculate_all :: "env \<Rightarrow> billing_review \<Rightarrow> error + billing_review" where
  "action_recalculate_all e self =
     (if state self \<noteq> Draft then Inl Recalculate_not_draft
      else
        (case calculate_usage_by_printer e (review_partner_id self)
                (to_datetime (review_date_from self))
                (Datetime_arg (to_datetime (review_date_to self))) of
           Inl err \<Rightarrow> Inl err
         | Inr usage_data \<Rightarrow>
             (case create_lines e (review_partner_id self) usage_data of
                Inl err \<Rightarrow> Inl err
              | Inr lines \<Rightarrow> Inr (self\<lparr>line_ids := lines\<rparr>))))"

section \<open>The billing wizard (wizards/printer\_billing\_wizard.py)\<close>

record billing_wizard =
  wz_partner_id :: "nat option"
  wz_date_from :: date
  wz_date_to :: date
  wz_group_by_location :: bool
  wz_only_not_billed :: bool

text \<open>
  \<^verbatim>\<open>action_generate_invoice\<close> of the wizard creates the review in draft, with the
  reference the sequence of the host hands out (\<^verbatim>\<open>'Nuevo'\<close> when it hands out none),
  and returns it.
\<close>

definition wizard_action_generate_invoice ::
  "env \<Rightarrow> billing_wizard \<Rightarrow> string option \<Rightarrow> nat \<Rightarrow> error + billing_review" where
  "wizard_action_generate_invoice e self sequence uid =
     (case wz_partner_id self of
        None \<Rightarrow> Inl No_partner_selected
      | Some partner \<Rightarrow>
          (case calculate_usage_by_printer e partner (to_datetime (wz_date_from self))
                  (Datetime_arg (to_datetime (wz_date_to self))) of
             Inl err \<Rightarrow> Inl err
           | Inr usage_data \<Rightarrow>
               if usage_data = [] then Inl No_usage_data
               else
                 (case create_lines e partner usage_data of
                    Inl err \<Rightarrow> Inl err
                  | Inr lines \<Rightarrow>
                      Inr \<lparr>review_name = (case sequence of
                                            None \<Rightarrow> ''Nuevo''
                                          | Some n \<Rightarrow> if n = [] then ''Nuevo'' else n),
                           state = Draft,
                           review_partner_id = partner,
                           review_date_from = wz_date_from self,
                           review_date_to = wz_date_to self,
                           group_by_location = wz_group_by_location self,
                           only_not_billed = wz_only_not_billed self,
                           line_ids = lines,
                           invoice_id = None,
                           confirmed_by = None,
                           confirmed_date = None,
                           invoiced_date = None\<rparr>)))"

section \<open>Notions used to state the billing results\<close>

text \<open>
  A price is configured for a partner and a counter type when the price table has a row
  for the pair; the table has at most one row per pair (its SQL constraint).
\<close>

definition has_price :: "env \<Rightarrow> nat \<Rightarrow> nat \<Rightarrow> bool" where
  "has_price e partner counter_type \<longleftrightarrow>
     (\<exists>p\<in>set (partner_counter_price_table e).
        pcp_partner_id p = partner \<and> pcp_counter_type_id p = counter_type)"

definition unique_prices :: "env \<Rightarrow> bool" where
  "unique_prices e \<longleftrightarrow>
     distinct (map (\<lambda>p. (pcp_partner_id p, pcp_counter_type_id p)) (partner_counter_price_table e))"

text \<open>
  A line in which counters without a configured price cost nothing: each has unit price
  0 and subtotal 0, and the estimated amount of the line is the sum over the counters
  that have a price.
\<close>

definition unpriced_free :: "env \<Rightarrow> nat \<Rightarrow> review_line \<Rightarrow> bool" where
  "unpriced_free e partner line \<longleftrightarrow>
     (\<forall>c\<in>set (rl_counter_line_ids line).
        \<not> has_price e partner (rvc_counter_type_id c) \<longrightarrow> rvc_unit_price c = 0 \<and> rvc_subtotal c = 0)
     \<and> rl_estimated_amount line
         = sum_list (map rvc_subtotal
             (filter (\<lambda>c. has_price e partner (rvc_counter_type_id c)) (rl_counter_line_ids line)))"

text \<open>
  What a newly created review line has to hold for one entry of the usage data: the
  printer of the entry, the line included in the invoice, and one counter for each
  counter entry, in the same order, with the counter type, name and the initial and
  final values of the entry and with the price \<^verbatim>\<open>get_price_for_partner_counter\<close>
  returns for the partner and the counter type.
\<close>

definition priced_counter :: "env \<Rightarrow> nat \<Rightarrow> counter_data \<Rightarrow> review_counter \<Rightarrow> bool" where
  "priced_counter e partner cd c \<longleftrightarrow>
     rvc_counter_type_id c = cd_counter_type_id cd
     \<and> rvc_counter_name c = cd_name cd
     \<and> rvc_counter_start c = cd_counter_start cd
     \<and> rvc_counter_end c = cd_counter_end cd
     \<and> rvc_unit_price c = get_price_for_partner_counter e partner (cd_counter_type_id cd)"

definition priced_line :: "env \<Rightarrow> nat \<Rightarrow> printer_usage \<Rightarrow> review_line \<Rightarrow> bool" where
  "priced_line e partner u line \<longleftrightarrow>
     rl_printer_id line = printer_id (pu_printer u)
     \<and> rl_include_in_invoice line
     \<and> list_all2 (priced_counter e partner) (pu_counters u) (rl_counter_line_ids line)"





text \<open>
  The public actions of a review, run one after the other on the database and the
  review; the first error ends the run.
\<close>

datatype review_action = Confirm | Generate_invoice | Cancel | Set_to_draft | Recalculate_all

definition review_step ::
  "nat \<Rightarrow> date \<Rightarrow> datetime \<Rightarrow> env \<times> billing_review \<Rightarrow> review_action
     \<Rightarrow> error + env \<times> billing_review" where
  "review_step uid today now s a =
     (case s of (e, self) \<Rightarrow>
        (case a of
           Confirm \<Rightarrow> map_sum id (Pair e) (action_confirm self uid now)
         | Generate_invoice \<Rightarrow>
             map_sum id (\<lambda>(e', self', _). (e', self')) (action_generate_invoice e self today now)
         | Cancel \<Rightarrow> map_sum id (Pair e) (action_cancel self)
         | Set_to_draft \<Rightarrow> map_sum id (Pair e) (action_set_to_draft self)
         | Recalculate_all \<Rightarrow> map_sum id (Pair e) (action_recalculate_all e self)))"

fun review_run ::
  "nat \<Rightarrow> date \<Rightarrow> datetime \<Rightarrow> env \<times> billing_review \<Rightarrow> review_action list
     \<Rightarrow> error + env \<times> billing_review" where
  "review_run uid today now s [] = Inr s"
| "review_run uid today now s (a # as) =
     (case review_step uid today now s a of
        Inl err \<Rightarrow> Inl err
      | Inr s' \<Rightarrow> review_run uid today now s' as)"

section \<open>Alert severities (controllers/printer\_api.py)\<close>

text \<open>
  \<^verbatim>\<open>normalize_severity\<close> looks the incoming severity up in a fixed dictionary and falls
  back to \<^verbatim>\<open>'medium'\<close>. The dictionary is kept as an association list in the order of
  the source; the warning it logs for an unknown value is not part of the result.
\<close>

definition severity_map :: "(string \<times> string) list" where
  "severity_map =
     [(''info'', ''low''),
      (''warning'', ''medium''),
      (''error'', ''high''),
      (''critical'', ''critical''),
      (''low'', ''low''),
      (''medium'', ''medium''),
      (''high'', ''high'')]"

definition normalize_severity :: "string \<Rightarrow> string" where
  "normalize_severity severity_str =
     (case map_of severity_map severity_str of
        Some normalized \<Rightarrow> normalized
      | None \<Rightarrow> ''medium'')"

section \<open>The synchronisation API (controllers/printer\_api.py)\<close>

subsection \<open>Python values and the host\<close>

text \<open>Truth of a JSON value as Python sees it, and \<^verbatim>\<open>dict.get\<close> on the members of an object.\<close>

fun truthy :: "json \<Rightarrow> bool" where
  "truthy JNull = False"
| "truthy (JBool b) = b"
| "truthy (JNum n) = (n \<noteq> 0)"
| "truthy (JStr s) = (s \<noteq> [])"
| "truthy (JArr xs) = (xs \<noteq> [])"
| "truthy (JObj kvs) = (kvs \<noteq> [])"

definition dict_get :: "(string \<times> json) list \<Rightarrow> string \<Rightarrow> json \<Rightarrow> json" where
  "dict_get d k dflt = (case map_of d k of Some v \<Rightarrow> v | None \<Rightarrow> dflt)"

text \<open>
  \<^verbatim>\<open>x.get(k, default)\<close> on any JSON value: only an object has the method.
\<close>

fun py_get :: "json \<Rightarrow> string \<Rightarrow> json \<Rightarrow> error + json" where
  "py_get (JObj d) k dflt = Inr (dict_get d k dflt)"
| "py_get _ k dflt = Inl Attribute_error"

text \<open>
  \<^verbatim>\<open>for x in v\<close>: a list yields its elements, an object its keys, a string its
  characters; anything else is not iterable.
\<close>

fun py_iter :: "json \<Rightarrow> error + json list" where
  "py_iter (JArr xs) = Inr xs"
| "py_iter (JObj kvs) = Inr (map (\<lambda>kv. JStr (fst kv)) kvs)"
| "py_iter (JStr s) = Inr (map (\<lambda>c. JStr [c]) s)"
| "py_iter _ = Inl Type_error"

text \<open>
  What the model takes from the host without looking inside: whether the framework
  raises on a given search, create or write in a given database (validation, SQL
  constraints, type conversion), and the parsing of timestamps and of integers written as
  strings. Every result below holds for every such host. A call the framework rejects is
  taken to leave the tables unchanged.
\<close>

datatype orm_call =
    Search_call string "(string \<times> json) list"
  | Create_call string "(string \<times> json) list"
  | Write_call string nat "(string \<times> json) list"

record host =
  orm_raises :: "env \<Rightarrow> orm_call \<Rightarrow> bool"
  parse_datetime :: "string \<Rightarrow> datetime option"
  parse_int :: "string \<Rightarrow> int option"

text \<open>\<^verbatim>\<open>parse_timestamp\<close> never raises: whatever fails inside it yields the current time.\<close>

definition parse_timestamp :: "host \<Rightarrow> datetime \<Rightarrow> json \<Rightarrow> datetime" where
  "parse_timestamp h now timestamp_str =
     (if \<not> truthy timestamp_str then now
      else (case timestamp_str of
              JStr s \<Rightarrow> (case parse_datetime h s of Some t \<Rightarrow> t | None \<Rightarrow> now)
            | _ \<Rightarrow> now))"

text \<open>\<^verbatim>\<open>int(value) if value else 0\<close>.\<close>

definition int_or_zero :: "host \<Rightarrow> json \<Rightarrow> error + int" where
  "int_or_zero h v =
     (if \<not> truthy v then Inr 0
      else (case v of
              JNum n \<Rightarrow> Inr n
            | JBool b \<Rightarrow> Inr 1
            | JStr s \<Rightarrow> (case parse_int h s of Some n \<Rightarrow> Inr n | None \<Rightarrow> Inl Value_error)
            | _ \<Rightarrow> Inl Type_error))"

text \<open>
  \<^verbatim>\<open>normalize_severity\<close> applied to a JSON value: a list or an object cannot be a
  dictionary key; any other value that is not a string is an unknown key.
\<close>

definition normalize_severity_json :: "json \<Rightarrow> error + string" where
  "normalize_severity_json v =
     (case v of
        JStr s \<Rightarrow> Inr (normalize_severity s)
      | JArr _ \<Rightarrow> Inl Type_error
      | JObj _ \<Rightarrow> Inl Type_error
      | _ \<Rightarrow> Inr ''medium'')"

subsection \<open>The token decorator\<close>

datatype auth_error = Token_required | Token_invalid | Token_deactivated

text \<open>
  A request carries the header \<^verbatim>\<open>X-Location-Token\<close>, if any, and a body that is JSON or
  is not. The answer of a route is either the HTTP error response of the decorator, with
  its status code, or what the endpoint returned.
\<close>

record request =
  location_token :: "string option"
  request_data :: "json option"

datatype 'a http_result = Response nat auth_error | Returned 'a

definition update_token_usage :: "env \<Rightarrow> printer_location \<Rightarrow> datetime \<Rightarrow> env \<times> printer_location" where
  "update_token_usage e self now =
     (let self' = self\<lparr>token_last_used := Some now,
                       token_requests_count := token_requests_count self + 1\<rparr>
      in (e\<lparr>printer_location_table :=
              map (\<lambda>l. if location_id l = location_id self then self' else l)
                (printer_location_table e)\<rparr>,
          self'))"

definition validate_location_token ::
  "(env \<Rightarrow> printer_location \<Rightarrow> request \<Rightarrow> datetime \<Rightarrow> env \<times> 'a)
     \<Rightarrow> env \<Rightarrow> request \<Rightarrow> datetime \<Rightarrow> env \<times> 'a http_result" where
  "validate_location_token func e req now =
     (case location_token req of
        None \<Rightarrow> (e, Response 401 Token_required)
      | Some token \<Rightarrow>
          if token = [] then (e, Response 401 Token_required)
          else
            (case find (\<lambda>l. access_token l = Some token \<and> is_active l)
                    (printer_location_table e) of
               None \<Rightarrow> (e, Response 403 Token_invalid)
             | Some location \<Rightarrow>
                 if \<not> token_active location then (e, Response 403 Token_deactivated)
                 else
                   (let (e1, location1) = update_token_usage e location now;
                        (e2, result) = func e1 location1 req now
                    in (e2, Returned result))))"

subsection \<open>Responses and the loop over the items of a payload\<close>

datatype item_error =
    Missing_ip
      \<comment> \<open>Impresora sin IP address\<close>
  | Missing_printer_ip
      \<comment> \<open>Lectura sin printer\_ip, Alerta sin printer\_ip\<close>
  | Missing_ip_or_supply
      \<comment> \<open>Consumible sin printer\_ip o supply\_name\<close>
  | Processing_error error
      \<comment> \<open>Error procesando ..., with the text of the exception\<close>

record sync_state =
  st_env :: env
  st_created :: nat
  st_updated :: nat
  st_skipped :: nat
  st_duplicates :: nat
  st_errors :: "item_error list"

definition start_state :: "env \<Rightarrow> sync_state" where
  "start_state e =
     \<lparr>st_env = e, st_created = 0, st_updated = 0, st_skipped = 0, st_duplicates = 0,
      st_errors = []\<rparr>"

text \<open>
  The answer of an endpoint: the dictionary it builds after the loop, or the dictionary
  \<^verbatim>\<open>{'status': 'error', 'message': ...}\<close> of its outer handler.
\<close>

record sync_response =
  resp_status :: string
  resp_location :: string
  resp_counts :: "(string \<times> nat) list"
  resp_errors :: "item_error list option"

datatype response = Sync_result sync_response | Sync_error error

definition make_response :: "printer_location \<Rightarrow> (string \<times> nat) list \<Rightarrow> item_error list \<Rightarrow> response" where
  "make_response location counts errors =
     Sync_result
       \<lparr>resp_status = (if errors \<noteq> [] then ''partial_success'' else ''success''),
        resp_location = location_name location,
        resp_counts = counts,
        resp_errors = (if errors \<noteq> [] then Some errors else None)\<rparr>"

text \<open>
  One pass of \<^verbatim>\<open>for item in items: try: ... except Exception as e: ...\<close>. The body
  returns the state it reached and, when it raised, the exception. The handler builds
  its message with \<^verbatim>\<open>item.get(key, 'unknown')\<close>, which raises in turn when the item is
  not an object; that exception leaves the loop, with the database as it then is.
\<close>

fun sync_items ::
  "(sync_state \<Rightarrow> json \<Rightarrow> sync_state \<times> error option) \<Rightarrow> string \<Rightarrow> sync_state \<Rightarrow> json list
     \<Rightarrow> env \<times> error + sync_state" where
  "sync_items body key st [] = Inr st"
| "sync_items body key st (item # items) =
     (case body st item of
        (st1, None) \<Rightarrow> sync_items body key st1 items
      | (st1, Some err) \<Rightarrow>
          (case py_get item key (JStr ''unknown'') of
             Inl err1 \<Rightarrow> Inl (st_env st1, err1)
           | Inr _ \<Rightarrow>
               sync_items body key
                 (st1\<lparr>st_errors := st_errors st1 @ [Processing_error err]\<rparr>) items))"

text \<open>
  The frame every endpoint shares: parse the body, take the list under the key of the
  endpoint (an empty list when the key is missing), run the loop, build the response;
  any exception on the way gives the error response.
\<close>

definition payload_items :: "request \<Rightarrow> string \<Rightarrow> error + json \<times> json list" where
  "payload_items req key =
     (case request_data req of
        None \<Rightarrow> Inl Json_decode_error
      | Some data \<Rightarrow>
          (case py_get data key (JArr []) of
             Inl err \<Rightarrow> Inl err
           | Inr items_data \<Rightarrow>
               (case py_iter items_data of
                  Inl err \<Rightarrow> Inl err
                | Inr items \<Rightarrow> Inr (items_data, items))))"

text \<open>\<^verbatim>\<open>len(items_data)\<close> for the total: the number of elements that were iterated.\<close>

subsection \<open>Printers\<close>

definition search_printer ::
  "host \<Rightarrow> env \<Rightarrow> nat \<Rightarrow> string \<Rightarrow> json \<Rightarrow> error + printer_device option" where
  "search_printer h e lid field v =
     (if orm_raises h e (Search_call ''printer.device'' [(''location_id'', JNum (int lid)), (field, v)])
      then Inl Orm_error
      else Inr (find (\<lambda>p. printer_location_id p = Some lid \<and> map_of (printer_fields p) field = Some v)
                  (printer_device_table e)))"

text \<open>\<^verbatim>\<open>_prepare_printer_values\<close>: the values without those that are \<^verbatim>\<open>None\<close>.\<close>

definition prepare_printer_values ::
  "(string \<times> json) list \<Rightarrow> printer_location \<Rightarrow> datetime \<Rightarrow> (string \<times> json) list" where
  "prepare_printer_values data location now =
     filter (\<lambda>kv. snd kv \<noteq> JNull)
       [(''location_id'', JNum (int (location_id location))),
        (''ip_address'', dict_get data ''ip_address'' JNull),
        (''mac_address'', dict_get data ''mac_address'' JNull),
        (''serial_number'', dict_get data ''serial_number'' JNull),
        (''model'', dict_get data ''model'' JNull),
        (''manufacturer'', dict_get data ''manufacturer'' JNull),
        (''hostname'', dict_get data ''hostname'' JNull),
        (''location'', dict_get data ''location'' JNull),
        (''department'', dict_get data ''department'' JNull),
        (''status'', dict_get data ''status'' (JStr ''unknown'')),
        (''is_active'', dict_get data ''is_active'' (JBool True)),
        (''community_string'', dict_get data ''community_string'' (JStr ''public'')),
        (''snmp_version'', dict_get data ''snmp_version'' (JStr ''2c'')),
        (''last_seen'', (let v = dict_get data ''last_seen'' JNull
                        in if truthy v then v else JNum now)),
        (''last_sync'', JNum now),
        (''sync_status'', JStr ''synced'')]"

text \<open>
  Storing values in a printer row. The key \<^verbatim>\<open>location_id\<close> sets the location (and with
  it the partner); every other key is a column. \<^verbatim>\<open>_compute_name\<close> of the printer model
  then recomputes the stored name.
\<close>

definition text_field :: "(string \<times> json) list \<Rightarrow> string \<Rightarrow> string" where
  "text_field columns k = (case map_of columns k of Some (JStr s) \<Rightarrow> s | _ \<Rightarrow> [])"

definition compute_name :: "env \<Rightarrow> printer_device \<Rightarrow> string" where
  "compute_name e record =
     (let model = text_field (printer_fields record) ''model'';
          serial = text_field (printer_fields record) ''serial_number'';
          ip = text_field (printer_fields record) ''ip_address'';
          name = (if model \<noteq> [] \<and> serial \<noteq> [] then model @ '' ('' @ serial @ '')''
                  else if model \<noteq> [] then model @ '' - '' @ ip
                  else if ip \<noteq> [] then ip else ''Nueva Impresora'')
      in (case printer_location_id record of
            None \<Rightarrow> name
          | Some lid \<Rightarrow>
              (case find (\<lambda>l. location_id l = lid) (printer_location_table e) of
                 None \<Rightarrow> name
               | Some l \<Rightarrow> ''['' @ location_name l @ ''] '' @ name)))"

definition store_values ::
  "env \<Rightarrow> printer_location \<Rightarrow> (string \<times> json) list \<Rightarrow> printer_device \<Rightarrow> printer_device" where
  "store_values e location values record =
     (let record1 = record
            \<lparr>printer_location_id :=
               (if ''location_id'' \<in> fst ` set values then Some (location_id location)
                else printer_location_id record),
             printer_partner_id :=
               (if ''location_id'' \<in> fst ` set values then location_partner_id location
                else printer_partner_id record),
             printer_fields :=
               foldl (\<lambda>columns kv. AList.update (fst kv) (snd kv) columns) (printer_fields record)
                 (filter (\<lambda>kv. fst kv \<noteq> ''location_id'') values)\<rparr>
      in record1\<lparr>printer_name := compute_name e record1\<rparr>)"

definition write_printer ::
  "host \<Rightarrow> env \<Rightarrow> printer_location \<Rightarrow> printer_device \<Rightarrow> (string \<times> json) list \<Rightarrow> error + env" where
  "write_printer h e location printer values =
     (if orm_raises h e (Write_call ''printer.device'' (printer_id printer) values) then Inl Orm_error
      else Inr (e\<lparr>printer_device_table :=
                   map (\<lambda>p. if printer_id p = printer_id printer
                             then store_values e location values p else p)
                     (printer_device_table e)\<rparr>))"

definition create_printer ::
  "host \<Rightarrow> env \<Rightarrow> printer_location \<Rightarrow> (string \<times> json) list \<Rightarrow> error + env" where
  "create_printer h e location values =
     (if orm_raises h e (Create_call ''printer.device'' values) then Inl Orm_error
      else Inr (e\<lparr>printer_device_table :=
                   printer_device_table e
                   @ [store_values e location values
                        \<lparr>printer_id = Suc (foldr max (map printer_id (printer_device_table e)) 0),
                         printer_name = [], printer_partner_id = location_partner_id location,
                         printer_location_id = None, printer_fields = []\<rparr>]\<rparr>))"

text \<open>
  The search for an existing printer of the location: by MAC address, then by serial
  number, then by IP address.
\<close>

definition find_existing_printer ::
  "host \<Rightarrow> env \<Rightarrow> nat \<Rightarrow> json \<Rightarrow> json \<Rightarrow> json \<Rightarrow> error + printer_device option" where
  "find_existing_printer h e lid ip_address mac_address serial_number =
     (case (if truthy mac_address then search_printer h e lid ''mac_address'' mac_address
            else Inr None) of
        Inl err \<Rightarrow> Inl err
      | Inr by_mac \<Rightarrow>
          (case (if by_mac = None \<and> truthy serial_number
                 then search_printer h e lid ''serial_number'' serial_number
                 else Inr by_mac) of
             Inl err \<Rightarrow> Inl err
           | Inr by_serial \<Rightarrow>
               (if by_serial = None then search_printer h e lid ''ip_address'' ip_address
                else Inr by_serial)))"

text \<open>The body of the loop of \<^verbatim>\<open>sync_printers\<close>.\<close>

definition sync_printer ::
  "host \<Rightarrow> printer_location \<Rightarrow> datetime \<Rightarrow> sync_state \<Rightarrow> json \<Rightarrow> sync_state \<times> error option" where
  "sync_printer h location now st printer_data =
     (case printer_data of
        JObj data \<Rightarrow>
          (let ip_address = dict_get data ''ip_address'' JNull;
               mac_address = dict_get data ''mac_address'' JNull;
               serial_number = dict_get data ''serial_number'' JNull
           in if \<not> truthy ip_address
              then (st\<lparr>st_errors := st_errors st @ [Missing_ip]\<rparr>, None)
              else
                (case find_existing_printer h (st_env st) (location_id location)
                        ip_address mac_address serial_number of
                   Inl err \<Rightarrow> (st, Some err)
                 | Inr found \<Rightarrow>
                     (let values = prepare_printer_values data location now
                      in (case found of
                            Some printer \<Rightarrow>
                              (case write_printer h (st_env st) location printer values of
                                 Inl err \<Rightarrow> (st, Some err)
                               | Inr e1 \<Rightarrow>
                                   (st\<lparr>st_env := e1, st_updated := st_updated st + 1\<rparr>, None))
                          | None \<Rightarrow>
                              (case create_printer h (st_env st) location values of
                                 Inl err \<Rightarrow> (st, Some err)
                               | Inr e1 \<Rightarrow>
                                   (st\<lparr>st_env := e1, st_created := st_created st + 1\<rparr>, None))))))
      | _ \<Rightarrow> (st, Some Attribute_error))"

definition write_location_sync ::
  "host \<Rightarrow> env \<Rightarrow> printer_location \<Rightarrow> datetime \<Rightarrow> string \<Rightarrow> error + env" where
  "write_location_sync h e location now status =
     (if orm_raises h e (Write_call ''printer.location'' (location_id location)
                           [(''last_sync'', JNum now), (''sync_status'', JStr status)])
      then Inl Orm_error
      else Inr (e\<lparr>printer_location_table :=
                   map (\<lambda>l. if location_id l = location_id location
                             then l\<lparr>location_last_sync := Some now, location_sync_status := status\<rparr>
                             else l)
                     (printer_location_table e)\<rparr>))"

definition sync_printers ::
  "host \<Rightarrow> env \<Rightarrow> printer_location \<Rightarrow> request \<Rightarrow> datetime \<Rightarrow> env \<times> response" where
  "sync_printers h e location req now =
     (case payload_items req ''printers'' of
        Inl err \<Rightarrow> (e, Sync_error err)
      | Inr (printers_data, items) \<Rightarrow>
          (case sync_items (sync_printer h location now) ''ip_address'' (start_state e) items of
             Inl (e1, err) \<Rightarrow> (e1, Sync_error err)
           | Inr st \<Rightarrow>
               (case write_location_sync h (st_env st) location now
                       (if st_errors st = [] then ''success'' else ''error'') of
                  Inl err \<Rightarrow> (st_env st, Sync_error err)
                | Inr e1 \<Rightarrow>
                    (e1, make_response location
                           [(''created'', st_created st), (''updated'', st_updated st),
                            (''total'', length items),
                            (''processed'', st_created st + st_updated st)]
                           (st_errors st)))))"

subsection \<open>Readings\<close>

definition a_acute :: string where
  "a_acute = [char_of (0xC3::nat), char_of (0xA1::nat)]"

text \<open>\<^verbatim>\<open>LEGACY_COUNTER_MAP\<close>: payload field, counter code, counter name.\<close>

definition legacy_counter_map :: "(string \<times> string \<times> string) list" where
  "legacy_counter_map =
     [(''total_pages'', ''total'', ''Total de P'' @ a_acute @ ''ginas''),
      (''mono_pages'', ''mono'', ''P'' @ a_acute @ ''ginas Monocrom'' @ a_acute @ ''ticas''),
      (''color_pages'', ''color'', ''P'' @ a_acute @ ''ginas a Color''),
      (''total_simplex'', ''simplex'', ''Total Simplex''),
      (''total_duplex'', ''duplex'', ''Total Duplex''),
      (''total_scans'', ''scans'', ''Total Escaneos''),
      (''total_copies'', ''copies'', ''Total Copias'')]"

definition search_counter_type ::
  "host \<Rightarrow> env \<Rightarrow> string \<Rightarrow> string \<Rightarrow> error + counter_type option" where
  "search_counter_type h e field v =
     (if orm_raises h e (Search_call ''counter.type'' [(field, JStr v)]) then Inl Orm_error
      else Inr (find (\<lambda>t. if field = ''code'' then ct_code t = Some v else ct_oid t = v)
                  (counter_type_table e)))"

definition create_counter_type ::
  "host \<Rightarrow> env \<Rightarrow> string \<Rightarrow> string \<Rightarrow> string \<Rightarrow> error + env \<times> counter_type" where
  "create_counter_type h e name code oid =
     (if orm_raises h e (Create_call ''counter.type''
                           [(''name'', JStr name), (''code'', JStr code), (''oid'', JStr oid),
                            (''active'', JBool True)])
      then Inl Orm_error
      else (let ct = \<lparr>ct_id = Suc (foldr max (map ct_id (counter_type_table e)) 0),
                       ct_oid = oid, ct_code = Some code, ct_name = name\<rparr>
            in Inr (e\<lparr>counter_type_table := counter_type_table e @ [ct]\<rparr>, ct)))"

definition find_or_create_counter_type ::
  "host \<Rightarrow> env \<Rightarrow> string \<Rightarrow> string \<Rightarrow> string \<Rightarrow> string \<Rightarrow> string
     \<Rightarrow> error + env \<times> counter_type" where
  "find_or_create_counter_type h e field v name code oid =
     (case search_counter_type h e field v of
        Inl err \<Rightarrow> Inl err
      | Inr (Some ct) \<Rightarrow> Inr (e, ct)
      | Inr None \<Rightarrow> create_counter_type h e name code oid)"

text \<open>
  The loops that collect \<^verbatim>\<open>counters_to_create\<close>: over the legacy fields of the item,
  and over its list of counters with OIDs. An exception leaves the loop with the counter
  types created so far.
\<close>

fun legacy_counters ::
  "host \<Rightarrow> (string \<times> json) list \<Rightarrow> (string \<times> string \<times> string) list \<Rightarrow> env
     \<Rightarrow> (counter_type \<times> int) list \<Rightarrow> bool
     \<Rightarrow> env \<times> error + env \<times> (counter_type \<times> int) list \<times> bool" where
  "legacy_counters h data [] e acc has_legacy = Inr (e, acc, has_legacy)"
| "legacy_counters h data ((field_name, code, name) # rest) e acc has_legacy =
     (case map_of data field_name of
        None \<Rightarrow> legacy_counters h data rest e acc has_legacy
      | Some v \<Rightarrow>
          if v = JNull then legacy_counters h data rest e acc has_legacy
          else
            (case find_or_create_counter_type h e ''code'' code name code (''legacy.'' @ code) of
               Inl err \<Rightarrow> Inl (e, err)
             | Inr (e1, ct) \<Rightarrow>
                 (case int_or_zero h v of
                    Inl err \<Rightarrow> Inl (e1, err)
                  | Inr n \<Rightarrow> legacy_counters h data rest e1 (acc @ [(ct, n)]) True)))"

definition dots_to_underscores :: "string \<Rightarrow> string" where
  "dots_to_underscores s = map (\<lambda>c. if c = CHR ''.'' then CHR ''_'' else c) s"

fun oid_counters ::
  "host \<Rightarrow> json list \<Rightarrow> env \<Rightarrow> (counter_type \<times> int) list
     \<Rightarrow> env \<times> error + env \<times> (counter_type \<times> int) list" where
  "oid_counters h [] e acc = Inr (e, acc)"
| "oid_counters h (counter_data # rest) e acc =
     (case counter_data of
        JObj cd \<Rightarrow>
          (let oid = dict_get cd ''oid'' JNull;
               v = dict_get cd ''value'' (JNum 0)
           in if \<not> truthy oid then oid_counters h rest e acc
              else
                (case oid of
                   JStr s \<Rightarrow>
                     (case find_or_create_counter_type h e ''oid'' s (''Contador '' @ s)
                             (''auto_'' @ dots_to_underscores s) s of
                        Inl err \<Rightarrow> Inl (e, err)
                      | Inr (e1, ct) \<Rightarrow>
                          (case int_or_zero h v of
                             Inl err \<Rightarrow> Inl (e1, err)
                           | Inr n \<Rightarrow> oid_counters h rest e1 (acc @ [(ct, n)])))
                 | _ \<Rightarrow>
                     Inl (e, if orm_raises h e (Search_call ''counter.type'' [(''oid'', oid)])
                             then Orm_error else Attribute_error)))
      | _ \<Rightarrow> Inl (e, Attribute_error))"

definition create_reading ::
  "host \<Rightarrow> env \<Rightarrow> printer_device \<Rightarrow> datetime \<Rightarrow> json \<Rightarrow> error + env \<times> printer_reading" where
  "create_reading h e printer timestamp status =
     (if orm_raises h e (Create_call ''printer.reading''
                           [(''printer_id'', JNum (int (printer_id printer))),
                            (''timestamp'', JNum timestamp), (''status'', status)])
      then Inl Orm_error
      else (let reading =
                  \<lparr>reading_id = Suc (foldr max (map reading_id (printer_reading_table e)) 0),
                   reading_printer_id = printer_id printer,
                   reading_partner_id = printer_partner_id printer,
                   reading_timestamp = timestamp,
                   reading_status = status,
                   reading_counter_ids = [],
                   is_billed = False, reading_invoice_id = None, billed_date = None\<rparr>
            in Inr (e\<lparr>printer_reading_table := printer_reading_table e @ [reading]\<rparr>, reading)))"

definition create_reading_counters ::
  "host \<Rightarrow> env \<Rightarrow> printer_reading \<Rightarrow> (counter_type \<times> int) list \<Rightarrow> error + env" where
  "create_reading_counters h e reading counters_to_create =
     (if orm_raises h e (Create_call ''printer.reading.counter''
                           (map (\<lambda>cv. (ct_oid (fst cv), JNum (snd cv))) counters_to_create))
      then Inl Orm_error
      else Inr (e\<lparr>printer_reading_table :=
                   map (\<lambda>r. if reading_id r = reading_id reading
                             then r\<lparr>reading_counter_ids :=
                                      map (\<lambda>cv. \<lparr>rc_counter_type_id = fst cv, rc_value = snd cv\<rparr>)
                                        counters_to_create\<rparr>
                             else r)
                     (printer_reading_table e)\<rparr>))"

text \<open>
  The counters of one reading: the legacy fields first, the list with OIDs only when the
  item has the key \<^verbatim>\<open>counters\<close> and no legacy field was present.
\<close>

definition collect_counters ::
  "host \<Rightarrow> (string \<times> json) list \<Rightarrow> env \<Rightarrow> env \<times> error + env \<times> (counter_type \<times> int) list" where
  "collect_counters h data e =
     (case legacy_counters h data legacy_counter_map e [] False of
        Inl (e2, err) \<Rightarrow> Inl (e2, err)
      | Inr (e2, legacy, has_legacy_counters) \<Rightarrow>
          if ''counters'' \<in> fst ` set data \<and> \<not> has_legacy_counters
          then (case py_iter (dict_get data ''counters'' (JArr [])) of
                  Inl err \<Rightarrow> Inl (e2, err)
                | Inr cs \<Rightarrow> oid_counters h cs e2 legacy)
          else Inr (e2, legacy))"

text \<open>
  The part of the body of \<^verbatim>\<open>sync_readings\<close> after the printer was found: create the
  reading, collect and create its counters, count it, and update the printer.
\<close>

definition store_reading ::
  "host \<Rightarrow> printer_location \<Rightarrow> datetime \<Rightarrow> sync_state \<Rightarrow> printer_device \<Rightarrow> (string \<times> json) list
     \<Rightarrow> sync_state \<times> error option" where
  "store_reading h location now st printer data =
     (let timestamp = parse_timestamp h now (dict_get data ''timestamp'' JNull);
          status = dict_get data ''status'' (JStr ''unknown'')
      in (case create_reading h (st_env st) printer timestamp status of
            Inl err \<Rightarrow> (st, Some err)
          | Inr (e1, reading) \<Rightarrow>
              (case collect_counters h data e1 of
                 Inl (e3, err) \<Rightarrow> (st\<lparr>st_env := e3\<rparr>, Some err)
               | Inr (e3, counters_to_create) \<Rightarrow>
                   (case (if counters_to_create \<noteq> []
                          then create_reading_counters h e3 reading counters_to_create
                          else Inr e3) of
                      Inl err \<Rightarrow> (st\<lparr>st_env := e3\<rparr>, Some err)
                    | Inr e4 \<Rightarrow>
                        (case write_printer h e4 location printer
                                [(''last_reading'', JNum timestamp), (''status'', status)] of
                           Inl err \<Rightarrow>
                             (st\<lparr>st_env := e4, st_created := st_created st + 1\<rparr>, Some err)
                         | Inr e5 \<Rightarrow>
                             (st\<lparr>st_env := e5, st_created := st_created st + 1\<rparr>, None))))))"

text \<open>The body of the loop of \<^verbatim>\<open>sync_readings\<close>.\<close>

definition sync_reading ::
  "host \<Rightarrow> printer_location \<Rightarrow> datetime \<Rightarrow> sync_state \<Rightarrow> json \<Rightarrow> sync_state \<times> error option" where
  "sync_reading h location now st reading_data =
     (case reading_data of
        JObj data \<Rightarrow>
          (let printer_ip = dict_get data ''printer_ip'' JNull
           in if \<not> truthy printer_ip
              then (st\<lparr>st_errors := st_errors st @ [Missing_printer_ip],
                       st_skipped := st_skipped st + 1\<rparr>, None)
              else
                (case search_printer h (st_env st) (location_id location) ''ip_address'' printer_ip of
                   Inl err \<Rightarrow> (st, Some err)
                 | Inr None \<Rightarrow> (st\<lparr>st_skipped := st_skipped st + 1\<rparr>, None)
                 | Inr (Some printer) \<Rightarrow> store_reading h location now st printer data))
      | _ \<Rightarrow> (st, Some Attribute_error))"

definition sync_readings ::
  "host \<Rightarrow> env \<Rightarrow> printer_location \<Rightarrow> request \<Rightarrow> datetime \<Rightarrow> env \<times> response" where
  "sync_readings h e location req now =
     (case payload_items req ''readings'' of
        Inl err \<Rightarrow> (e, Sync_error err)
      | Inr (readings_data, items) \<Rightarrow>
          (case sync_items (sync_reading h location now) ''printer_ip'' (start_state e) items of
             Inl (e1, err) \<Rightarrow> (e1, Sync_error err)
           | Inr st \<Rightarrow>
               (st_env st,
                make_response location
                  [(''created'', st_created st), (''skipped'', st_skipped st),
                   (''total'', length items)]
                  (st_errors st))))"

subsection \<open>Consumables\<close>

definition consumable_values ::
  "(string \<times> json) list \<Rightarrow> printer_device \<Rightarrow> json \<Rightarrow> datetime \<Rightarrow> (string \<times> json) list" where
  "consumable_values data printer name now =
     [(''printer_id'', JNum (int (printer_id printer))),
      (''supply_name'', name),
      (''supply_type'', dict_get data ''supply_type'' JNull),
      (''color'', dict_get data ''color'' JNull),
      (''level_percent'', dict_get data ''level_percent'' JNull),
      (''model'', dict_get data ''model'' JNull),
      (''last_update'', JNum now)]
     @ (case map_of data ''status'' of None \<Rightarrow> [] | Some v \<Rightarrow> [(''status'', v)])"

definition search_consumable ::
  "host \<Rightarrow> env \<Rightarrow> printer_device \<Rightarrow> json \<Rightarrow> error + printer_consumable option" where
  "search_consumable h e printer name =
     (if orm_raises h e (Search_call ''printer.consumable''
                           [(''printer_id'', JNum (int (printer_id printer))), (''supply_name'', name)])
      then Inl Orm_error
      else Inr (find (\<lambda>c. consumable_printer_id c = printer_id printer \<and> supply_name c = name)
                  (printer_consumable_table e)))"

definition write_consumable ::
  "host \<Rightarrow> env \<Rightarrow> printer_consumable \<Rightarrow> printer_device \<Rightarrow> json \<Rightarrow> (string \<times> json) list
     \<Rightarrow> error + env" where
  "write_consumable h e consumable printer name values =
     (if orm_raises h e (Write_call ''printer.consumable'' (consumable_id consumable) values)
      then Inl Orm_error
      else Inr (e\<lparr>printer_consumable_table :=
                   map (\<lambda>c. if consumable_id c = consumable_id consumable
                             then c\<lparr>consumable_printer_id := printer_id printer,
                                    supply_name := name,
                                    consumable_vals :=
                                      foldl (\<lambda>columns kv. AList.update (fst kv) (snd kv) columns)
                                        (consumable_vals c) values\<rparr>
                             else c)
                     (printer_consumable_table e)\<rparr>))"

definition create_consumable ::
  "host \<Rightarrow> env \<Rightarrow> printer_device \<Rightarrow> json \<Rightarrow> (string \<times> json) list \<Rightarrow> error + env" where
  "create_consumable h e printer name values =
     (if orm_raises h e (Create_call ''printer.consumable'' values) then Inl Orm_error
      else Inr (e\<lparr>printer_consumable_table :=
                   printer_consumable_table e
                   @ [\<lparr>consumable_id =
                         Suc (foldr max (map consumable_id (printer_consumable_table e)) 0),
                       consumable_printer_id = printer_id printer,
                       supply_name = name,
                       consumable_vals = values\<rparr>]\<rparr>))"

text \<open>The body of the loop of \<^verbatim>\<open>sync_consumables\<close>.\<close>

definition sync_consumable ::
  "host \<Rightarrow> printer_location \<Rightarrow> datetime \<Rightarrow> sync_state \<Rightarrow> json \<Rightarrow> sync_state \<times> error option" where
  "sync_consumable h location now st consumable_data =
     (case consumable_data of
        JObj data \<Rightarrow>
          (let printer_ip = dict_get data ''printer_ip'' JNull;
               name = dict_get data ''supply_name'' JNull
           in if \<not> truthy printer_ip \<or> \<not> truthy name
              then (st\<lparr>st_errors := st_errors st @ [Missing_ip_or_supply],
                       st_skipped := st_skipped st + 1\<rparr>, None)
              else
                (case search_printer h (st_env st) (location_id location) ''ip_address'' printer_ip of
                   Inl err \<Rightarrow> (st, Some err)
                 | Inr None \<Rightarrow> (st\<lparr>st_skipped := st_skipped st + 1\<rparr>, None)
                 | Inr (Some printer) \<Rightarrow>
                     (case search_consumable h (st_env st) printer name of
                        Inl err \<Rightarrow> (st, Some err)
                      | Inr found \<Rightarrow>
                          (let values = consumable_values data printer name now
                           in (case found of
                                 Some consumable \<Rightarrow>
                                   (case write_consumable h (st_env st) consumable printer name
                                           values of
                                      Inl err \<Rightarrow> (st, Some err)
                                    | Inr e1 \<Rightarrow>
                                        (st\<lparr>st_env := e1, st_updated := st_updated st + 1\<rparr>,
                                         None))
                               | None \<Rightarrow>
                                   (case create_consumable h (st_env st) printer name values of
                                      Inl err \<Rightarrow> (st, Some err)
                                    | Inr e1 \<Rightarrow>
                                        (st\<lparr>st_env := e1, st_created := st_created st + 1\<rparr>,
                                         None)))))))
      | _ \<Rightarrow> (st, Some Attribute_error))"

definition sync_consumables ::
  "host \<Rightarrow> env \<Rightarrow> printer_location \<Rightarrow> request \<Rightarrow> datetime \<Rightarrow> env \<times> response" where
  "sync_consumables h e location req now =
     (case payload_items req ''consumables'' of
        Inl err \<Rightarrow> (e, Sync_error err)
      | Inr (consumables_data, items) \<Rightarrow>
          (case sync_items (sync_consumable h location now) ''supply_name'' (start_state e) items of
             Inl (e1, err) \<Rightarrow> (e1, Sync_error err)
           | Inr st \<Rightarrow>
               (st_env st,
                make_response location
                  [(''created'', st_created st), (''updated'', st_updated st),
                   (''skipped'', st_skipped st), (''total'', length items)]
                  (st_errors st))))"

subsection \<open>Alerts\<close>

definition search_alert ::
  "host \<Rightarrow> env \<Rightarrow> printer_device \<Rightarrow> json \<Rightarrow> json \<Rightarrow> datetime \<Rightarrow> error + printer_alert option" where
  "search_alert h e printer type message time_threshold =
     (if orm_raises h e (Search_call ''printer.alert''
                           [(''printer_id'', JNum (int (printer_id printer))), (''alert_type'', type),
                            (''message'', message), (''timestamp'', JNum time_threshold),
                            (''resolved'', JBool False)])
      then Inl Orm_error
      else Inr (find (\<lambda>a. alert_printer_id a = printer_id printer \<and> alert_type a = type
                           \<and> alert_message a = message \<and> time_threshold \<le> alert_timestamp a
                           \<and> \<not> resolved a)
                  (printer_alert_table e)))"

definition create_alert :: "host \<Rightarrow> env \<Rightarrow> printer_alert \<Rightarrow> error + env" where
  "create_alert h e alert_values =
     (if orm_raises h e (Create_call ''printer.alert''
                           [(''printer_id'', JNum (int (alert_printer_id alert_values))),
                            (''alert_type'', alert_type alert_values),
                            (''severity'', JStr (severity alert_values)),
                            (''message'', alert_message alert_values),
                            (''timestamp'', JNum (alert_timestamp alert_values)),
                            (''resolved'', JBool (resolved alert_values)),
                            (''resolved_at'', resolved_at alert_values)])
      then Inl Orm_error
      else Inr (e\<lparr>printer_alert_table :=
                   printer_alert_table e
                   @ [alert_values
                        \<lparr>alert_id := Suc (foldr max (map alert_id (printer_alert_table e)) 0)\<rparr>]\<rparr>))"

text \<open>The body of the loop of \<^verbatim>\<open>sync_alerts\<close>.\<close>

definition sync_alert ::
  "host \<Rightarrow> printer_location \<Rightarrow> datetime \<Rightarrow> sync_state \<Rightarrow> json \<Rightarrow> sync_state \<times> error option" where
  "sync_alert h location now st alert_data =
     (case alert_data of
        JObj data \<Rightarrow>
          (let printer_ip = dict_get data ''printer_ip'' JNull
           in if \<not> truthy printer_ip
              then (st\<lparr>st_errors := st_errors st @ [Missing_printer_ip],
                       st_skipped := st_skipped st + 1\<rparr>, None)
              else
                (case search_printer h (st_env st) (location_id location) ''ip_address'' printer_ip of
                   Inl err \<Rightarrow> (st, Some err)
                 | Inr None \<Rightarrow> (st\<lparr>st_skipped := st_skipped st + 1\<rparr>, None)
                 | Inr (Some printer) \<Rightarrow>
                     (let timestamp = dict_get data ''timestamp'' JNull;
                          parsed_timestamp =
                            (if truthy timestamp then parse_timestamp h now timestamp else now);
                          time_threshold = parsed_timestamp - 24 * 3600
                      in (case search_alert h (st_env st) printer (dict_get data ''alert_type'' JNull)
                                 (dict_get data ''message'' JNull) time_threshold of
                            Inl err \<Rightarrow> (st, Some err)
                          | Inr (Some existing) \<Rightarrow>
                              (st\<lparr>st_duplicates := st_duplicates st + 1\<rparr>, None)
                          | Inr None \<Rightarrow>
                              (case normalize_severity_json
                                      (dict_get data ''severity'' (JStr ''medium'')) of
                                 Inl err \<Rightarrow> (st, Some err)
                               | Inr sev \<Rightarrow>
                                   (case create_alert h (st_env st)
                                           \<lparr>alert_id = 0,
                                            alert_printer_id = printer_id printer,
                                            alert_type = dict_get data ''alert_type'' (JStr ''other''),
                                            severity = sev,
                                            alert_message = dict_get data ''message'' JNull,
                                            alert_timestamp = parsed_timestamp,
                                            resolved = truthy (dict_get data ''resolved'' (JBool False)),
                                            resolved_at = dict_get data ''resolved_at'' JNull\<rparr> of
                                      Inl err \<Rightarrow> (st, Some err)
                                    | Inr e1 \<Rightarrow>
                                        (st\<lparr>st_env := e1, st_created := st_created st + 1\<rparr>,
                                         None)))))))
      | _ \<Rightarrow> (st, Some Attribute_error))"

definition sync_alerts ::
  "host \<Rightarrow> env \<Rightarrow> printer_location \<Rightarrow> request \<Rightarrow> datetime \<Rightarrow> env \<times> response" where
  "sync_alerts h e location req now =
     (case payload_items req ''alerts'' of
        Inl err \<Rightarrow> (e, Sync_error err)
      | Inr (alerts_data, items) \<Rightarrow>
          (case sync_items (sync_alert h location now) ''printer_ip'' (start_state e) items of
             Inl (e1, err) \<Rightarrow> (e1, Sync_error err)
           | Inr st \<Rightarrow>
               (st_env st,
                make_response location
                  [(''created'', st_created st), (''duplicates'', st_duplicates st),
                   (''skipped'', st_skipped st), (''total'', length items)]
                  (st_errors st))))"

subsection \<open>The four routes\<close>

datatype endpoint = Sync_printers | Sync_readings | Sync_consumables | Sync_alerts

definition endpoint_body ::
  "host \<Rightarrow> endpoint \<Rightarrow> env \<Rightarrow> printer_location \<Rightarrow> request \<Rightarrow> datetime \<Rightarrow> env \<times> response" where
  "endpoint_body h ep =
     (case ep of
        Sync_printers \<Rightarrow> sync_printers h
      | Sync_readings \<Rightarrow> sync_readings h
      | Sync_consumables \<Rightarrow> sync_consumables h
      | Sync_alerts \<Rightarrow> sync_alerts h)"

definition route ::
  "host \<Rightarrow> endpoint \<Rightarrow> env \<Rightarrow> request \<Rightarrow> datetime \<Rightarrow> env \<times> response http_result" where
  "route h ep = validate_location_token (endpoint_body h ep)"

section \<open>Notions used to state the API results\<close>

text \<open>The active locations a token matches, in the order the search returns them.\<close>

definition active_locations_with_token :: "env \<Rightarrow> string \<Rightarrow> printer_location list" where
  "active_locations_with_token e token =
     filter (\<lambda>l. access_token l = Some token \<and> is_active l) (printer_location_table e)"

text \<open>Tokens are unique among the locations (the constraint of the location model).\<close>

definition unique_tokens :: "env \<Rightarrow> bool" where
  "unique_tokens e \<longleftrightarrow>
     (\<forall>l1\<in>set (printer_location_table e). \<forall>l2\<in>set (printer_location_table e).
        access_token l1 = access_token l2 \<and> access_token l1 \<noteq> None \<longrightarrow> l1 = l2)"

definition is_object :: "json \<Rightarrow> bool" where
  "is_object v = (case v of JObj _ \<Rightarrow> True | _ \<Rightarrow> False)"






text \<open>
  What a request to each endpoint may leave behind for a location: every printer row that
  was not in the database before (created, or changed by an update) has that location;
  every reading, consumable and alert row that was not there before (created, or changed
  by an update) belongs to a printer of that location, and the request moves no printer
  to another location.
\<close>

definition printer_keys :: "env \<Rightarrow> (nat \<times> nat option) list" where
  "printer_keys e = map (\<lambda>p. (printer_id p, printer_location_id p)) (printer_device_table e)"





text \<open>
  What the loops of the endpoints keep true of the database while they run for a
  location, relative to the database \<^verbatim>\<open>e\<close> they started from.
\<close>

definition at_location :: "env \<Rightarrow> nat \<Rightarrow> nat \<Rightarrow> bool" where
  "at_location e lid pid \<longleftrightarrow>
     (\<exists>p\<in>set (printer_device_table e). printer_id p = pid \<and> printer_location_id p = Some lid)"


definition readings_scoped :: "env \<Rightarrow> nat \<Rightarrow> env \<Rightarrow> bool" where
  "readings_scoped e lid e' \<longleftrightarrow>
     (\<forall>r\<in>set (printer_reading_table e').
        r \<in> set (printer_reading_table e) \<or> at_location e lid (reading_printer_id r))"



definition reading_inv :: "env \<Rightarrow> nat \<Rightarrow> env \<Rightarrow> bool" where
  "reading_inv e lid e' \<longleftrightarrow>
     printer_keys e' = printer_keys e
     \<and> set (printer_reading_table e) \<subseteq> set (printer_reading_table e')
     \<and> (\<forall>r\<in>set (printer_reading_table e').
           r \<in> set (printer_reading_table e)
           \<or> (at_location e lid (reading_printer_id r)
               \<and> reading_id r \<notin> reading_id ` set (printer_reading_table e)))"


section \<open>Example data\<close>

text \<open>
  A small database used to run the definitions: partner 7 has two printers at one
  location, partner 8 has one. Printer 1 has a reading on day 0 and two readings on
  day 1, the second of them with a colour counter; printer 2 has a reading on day 0 only.
\<close>

definition pages_total :: counter_type where
  "pages_total = \<lparr>ct_id = 1, ct_oid = ''1.3.6.1'', ct_code = Some ''total'', ct_name = ''Total''\<rparr>"

definition pages_color :: counter_type where
  "pages_color = \<lparr>ct_id = 2, ct_oid = ''1.3.6.2'', ct_code = Some ''color'', ct_name = ''Color''\<rparr>"

definition reading_at ::
  "nat \<Rightarrow> nat \<Rightarrow> nat \<Rightarrow> datetime \<Rightarrow> (counter_type \<times> int) list \<Rightarrow> printer_reading" where
  "reading_at rid pid partner t cs =
     \<lparr>reading_id = rid, reading_printer_id = pid, reading_partner_id = partner,
      reading_timestamp = t, reading_status = JStr ''online'',
      reading_counter_ids = map (\<lambda>(ct, v). \<lparr>rc_counter_type_id = ct, rc_value = v\<rparr>) cs,
      is_billed = False, reading_invoice_id = None, billed_date = None\<rparr>"

definition printer_row :: "nat \<Rightarrow> nat \<Rightarrow> nat \<Rightarrow> printer_device" where
  "printer_row pid partner lid =
     \<lparr>printer_id = pid, printer_name = ''Printer'', printer_partner_id = partner,
      printer_location_id = Some lid, printer_fields = []\<rparr>"

definition location_row :: "nat \<Rightarrow> string \<Rightarrow> nat \<Rightarrow> string \<Rightarrow> bool \<Rightarrow> bool \<Rightarrow> printer_location" where
  "location_row lid name partner token active tok_active =
     \<lparr>location_id = lid, location_name = name, location_partner_id = partner,
      access_token = Some token, token_active = tok_active, is_active = active,
      token_last_used = None, token_requests_count = 0,
      location_last_sync = None, location_sync_status = ''never''\<rparr>"

definition empty_env :: env where
  "empty_env =
     \<lparr>printer_device_table = [], printer_reading_table = [], printer_location_table = [],
      partner_counter_price_table = [], account_move_table = [],
      counter_type_table = [], printer_consumable_table = [], printer_alert_table = []\<rparr>"

definition office_env :: env where
  "office_env =
     empty_env
       \<lparr>printer_device_table := [printer_row 1 7 1, printer_row 2 7 1, printer_row 3 8 2],
        printer_reading_table :=
          [reading_at 1 1 7 50 [(pages_total, 100)],
           reading_at 2 1 7 86550 [(pages_total, 180)],
           reading_at 3 1 7 86650 [(pages_total, 260), (pages_color, 40)],
           reading_at 4 3 8 86600 [(pages_total, 5)],
           reading_at 5 2 7 20 [(pages_total, 9)]],
        printer_location_table :=
          [location_row 1 ''Central'' 7 ''tok-central'' True True,
           location_row 2 ''Norte'' 8 ''tok-norte'' True True],
        partner_counter_price_table :=
          [\<lparr>pcp_partner_id = 7, pcp_counter_type_id = 1, pcp_unit_price = 1 / 50\<rparr>]\<rparr>"

text \<open>A printer whose first readings ever, 100 and then 150 pages, fall on day 1.\<close>

definition new_printer_env :: env where
  "new_printer_env =
     empty_env
       \<lparr>printer_device_table := [printer_row 1 7 1],
        printer_reading_table :=
          [reading_at 1 1 7 86550 [(pages_total, 100)],
           reading_at 2 1 7 86650 [(pages_total, 150)]],
        printer_location_table := [location_row 1 ''Central'' 7 ''tok-central'' True True]\<rparr>"

text \<open>
  A counter type whose internal code is the OID of another counter type, and a reading
  that carries both.
\<close>

definition pages_alias :: counter_type where
  "pages_alias = \<lparr>ct_id = 3, ct_oid = ''1.3.6.3'', ct_code = Some ''1.3.6.1'', ct_name = ''Alias''\<rparr>"

definition clash_env :: env where
  "clash_env =
     empty_env
       \<lparr>printer_device_table := [printer_row 1 7 1],
        printer_reading_table :=
          [reading_at 1 1 7 86550 [(pages_total, 100), (pages_alias, 30)]],
        printer_location_table := [location_row 1 ''Central'' 7 ''tok-central'' True True]\<rparr>"

definition counter_row :: "int \<Rightarrow> int \<Rightarrow> rat \<Rightarrow> review_counter" where
  "counter_row first_value last_value price =
     \<lparr>rvc_counter_type_id = 1, rvc_counter_name = ''Total'',
      rvc_counter_start = first_value, rvc_counter_end = last_value,
      rvc_unit_price = price\<rparr>"

text \<open>The wizard filled in for partner 7 and day 1, and a review with lines at two locations
  and lines without a location.\<close>

definition office_wizard :: billing_wizard where
  "office_wizard =
     \<lparr>wz_partner_id = Some 7, wz_date_from = 1, wz_date_to = 1,
      wz_group_by_location = True, wz_only_not_billed = True\<rparr>"

definition line_row :: "nat \<Rightarrow> string option \<Rightarrow> bool \<Rightarrow> review_counter list \<Rightarrow> review_line" where
  "line_row pid location included counters =
     \<lparr>rl_printer_id = pid, rl_printer_name = ''Printer'', rl_location_name = location,
      rl_counter_line_ids = counters, rl_include_in_invoice = included, rl_notes = None\<rparr>"

definition sample_review :: billing_review where
  "sample_review =
     \<lparr>review_name = ''REV/0001'', state = Draft, review_partner_id = 7,
      review_date_from = 1, review_date_to = 1,
      group_by_location = True, only_not_billed = True,
      line_ids =
        [line_row 1 (Some ''Central'') True [counter_row 100 260 (1 / 50)],
         line_row 2 (Some ''Norte'') True [counter_row 0 50 (1 / 10)],
         line_row 3 (Some ''Central'') True [counter_row 10 110 (1 / 50), counter_row 0 40 0],
         line_row 4 None True [counter_row 5 5 (1 / 50)],
         line_row 5 (Some ''Norte'') False [counter_row 0 1000 (1 / 10)],
         line_row 6 None True [counter_row 20 30 (1 / 10)]],
      invoice_id = None, confirmed_by = None, confirmed_date = None, invoiced_date = None\<rparr>"


text \<open>
  A host that never raises and parses nothing, requests with the token of the first
  location, and payloads whose first item is the number 5 instead of an object.
\<close>

definition quiet_host :: host where
  "quiet_host =
     \<lparr>orm_raises = (\<lambda>e c. False), parse_datetime = (\<lambda>s. None), parse_int = (\<lambda>s. None)\<rparr>"

definition central_request :: "json \<Rightarrow> request" where
  "central_request payload = \<lparr>location_token = Some ''tok-central'', request_data = Some payload\<rparr>"

definition new_printer_item :: json where
  "new_printer_item = JObj [(''ip_address'', JStr ''10.0.0.9''), (''model'', JStr ''WF-6590'')]"

definition api_env :: env where
  "api_env =
     empty_env
       \<lparr>printer_device_table :=
          [(printer_row 1 7 1)\<lparr>printer_fields := [(''ip_address'', JStr ''10.0.0.1'')]\<rparr>,
           (printer_row 3 8 2)\<lparr>printer_fields := [(''ip_address'', JStr ''10.0.0.3'')]\<rparr>],
        printer_location_table :=
          [location_row 1 ''Central'' 7 ''tok-central'' True True,
           location_row 2 ''Norte'' 8 ''tok-norte'' True True,
           location_row 3 ''Sur'' 8 ''tok-sur'' True False,
           location_row 4 ''Cerrada'' 8 ''tok-cerrada'' False True]\<rparr>"

text \<open>A request with nothing but its token header.\<close>

definition token_request :: "string option \<Rightarrow> request" where
  "token_request tok = \<lparr>location_token = tok, request_data = None\<rparr>"





section \<open>The usage calculation\<close>

subsection \<open>Loops, recordsets and searches\<close>

lemma counter_usage_total:
  "counter_usage e p rs df ct = Inr (Some cd) \<Longrightarrow>
   cd_total_pages cd = max 0 (cd_counter_end cd - cd_counter_start cd)"
  by (auto simp: counter_usage_def Let_def make_counter_data_def
           split: if_splits sum.splits option.splits)

lemma for_each_append_mem:
  "for_each_append body xs = Inr ys \<Longrightarrow> y \<in> set ys \<Longrightarrow> \<exists>x\<in>set xs. body x = Inr (Some y)"
proof (induction xs arbitrary: ys)
  case Nil
  then show ?case by simp
next
  case (Cons x xs)
  show ?case
  proof (cases "body x")
    case (Inl err)
    with Cons.prems show ?thesis by simp
  next
    case (Inr r)
    show ?thesis
    proof (cases r)
      case None
      with Inr Cons show ?thesis by auto
    next
      case (Some y')
      with Inr Cons.prems obtain ys' where ys': "for_each_append body xs = Inr ys'" "ys = y' # ys'"
        by (auto split: sum.splits)
      with Cons.prems(2) have "y = y' \<or> y \<in> set ys'" by auto
      then show ?thesis
        using Cons.IH [OF ys'(1)] Inr Some by auto
    qed
  qed
qed

lemma printer_usage_of_total:
  assumes "printer_usage_of e df dte p = Inr (Some u)" "cd \<in> set (pu_counters u)"
  shows "cd_total_pages cd = max 0 (cd_counter_end cd - cd_counter_start cd)"
proof -
  from assms(1) obtain cds where
    "for_each_append (counter_usage e p (readings_in_period e (printer_id p) df dte) df)
       (counter_types_in_period (readings_in_period e (printer_id p) df dte)) = Inr cds"
    "pu_counters u = cds"
    by (auto simp: printer_usage_of_def Let_def split: if_splits sum.splits)
  with assms(2) obtain ct where
    "counter_usage e p (readings_in_period e (printer_id p) df dte) df ct = Inr (Some cd)"
    using for_each_append_mem [of _ _ cds cd] by blast
  then show ?thesis by (rule counter_usage_total)
qed

lemma calculate_usage_total:
  assumes "calculate_usage_by_printer e partner df dt = Inr usage"
    "u \<in> set usage" "cd \<in> set (pu_counters u)"
  shows "cd_total_pages cd = max 0 (cd_counter_end cd - cd_counter_start cd)"
proof -
  from assms(1,2) obtain p where "printer_usage_of e df (date_to_end dt) p = Inr (Some u)"
    unfolding calculate_usage_by_printer_def using for_each_append_mem by fast
  then show ?thesis using assms(3) by (rule printer_usage_of_total)
qed

lemma sorted_key_last_max:
  "sorted (map f xs) \<Longrightarrow> x \<in> set xs \<Longrightarrow> f x \<le> f (last xs)"
  by (induction xs) (auto split: if_splits)

lemma rs_add_ids: "ct_id ` set (rs_add acc ct) = insert (ct_id ct) (ct_id ` set acc)"
  by (auto simp: rs_add_def)

lemma rs_add_subset: "set (rs_add acc ct) \<subseteq> insert ct (set acc)"
  by (auto simp: rs_add_def)

lemma rs_add_distinct: "distinct (map ct_id acc) \<Longrightarrow> distinct (map ct_id (rs_add acc ct))"
  by (auto simp: rs_add_def)

lemma rs_union_ids: "ct_id ` set (rs_union xs ys) = ct_id ` set xs \<union> ct_id ` set ys"
  unfolding rs_union_def
  by (induction ys arbitrary: xs) (auto simp: rs_add_ids)

lemma rs_union_subset: "set (rs_union xs ys) \<subseteq> set xs \<union> set ys"
  unfolding rs_union_def
proof (induction ys arbitrary: xs)
  case Nil
  then show ?case by simp
next
  case (Cons y ys)
  have "set (foldl rs_add (rs_add xs y) ys) \<subseteq> set (rs_add xs y) \<union> set ys"
    by (rule Cons.IH)
  then show ?case using rs_add_subset [of xs y] by auto
qed

lemma rs_union_distinct: "distinct (map ct_id xs) \<Longrightarrow> distinct (map ct_id (rs_union xs ys))"
  unfolding rs_union_def
  by (induction ys arbitrary: xs) (auto simp: rs_add_distinct)

lemma mapped_ids:
  "ct_id ` set (mapped_counter_type_id cs) = (\<lambda>c. ct_id (rc_counter_type_id c)) ` set cs"
  by (auto simp: mapped_counter_type_id_def rs_union_ids)

lemma mapped_subset: "set (mapped_counter_type_id cs) \<subseteq> rc_counter_type_id ` set cs"
  using rs_union_subset [of "[]" "map rc_counter_type_id cs"]
  by (auto simp: mapped_counter_type_id_def)

lemma types_fold_ids:
  "ct_id ` set (foldl (\<lambda>acc reading. rs_union acc (mapped_counter_type_id (reading_counter_ids reading))) acc rs)
   = ct_id ` set acc \<union> (\<Union>r\<in>set rs. (\<lambda>c. ct_id (rc_counter_type_id c)) ` set (reading_counter_ids r))"
  by (induction rs arbitrary: acc) (auto simp: rs_union_ids mapped_ids)

lemma types_fold_subset:
  "set (foldl (\<lambda>acc reading. rs_union acc (mapped_counter_type_id (reading_counter_ids reading))) acc rs)
   \<subseteq> set acc \<union> (\<Union>r\<in>set rs. rc_counter_type_id ` set (reading_counter_ids r))"
proof (induction rs arbitrary: acc)
  case Nil
  then show ?case by simp
next
  case (Cons r rs)
  show ?case
    using Cons.IH [of "rs_union acc (mapped_counter_type_id (reading_counter_ids r))"]
      rs_union_subset [of acc "mapped_counter_type_id (reading_counter_ids r)"]
      mapped_subset [of "reading_counter_ids r"]
    by auto
qed

lemma types_fold_distinct:
  "distinct (map ct_id acc) \<Longrightarrow>
   distinct (map ct_id (foldl (\<lambda>acc reading. rs_union acc (mapped_counter_type_id (reading_counter_ids reading))) acc rs))"
  by (induction rs arbitrary: acc) (auto simp: rs_union_distinct)

lemma filter_key_find:
  "distinct (map f xs) \<Longrightarrow>
   filter (\<lambda>x. f x = k) xs = (case find (\<lambda>x. f x = k) xs of None \<Rightarrow> [] | Some x \<Rightarrow> [x])"
proof (induction xs)
  case Nil
  then show ?case by simp
next
  case (Cons a xs)
  show ?case
  proof (cases "f a = k")
    case True
    from Cons.prems True have "k \<notin> f ` set xs" by simp
    then have "\<forall>x\<in>set xs. f x \<noteq> k" by blast
    then have "filter (\<lambda>x. f x = k) xs = []" by (simp add: filter_empty_conv)
    with True show ?thesis by simp
  next
    case False
    with Cons show ?thesis by simp
  qed
qed

lemma get_counter_value_wf:
  assumes wf: "wf_counter_types e"
    and r: "r \<in> set (printer_reading_table e)"
    and ct: "ct \<in> all_counter_types e"
  shows "get_counter_value r (ct_oid ct) = Inr (counter_value_of r (ct_id ct))"
proof -
  let ?cs = "reading_counter_ids r"
  have mem: "rc_counter_type_id c \<in> all_counter_types e" if "c \<in> set ?cs" for c
    using that r by (auto simp: all_counter_types_def)
  have same: "(ct_oid (rc_counter_type_id c) = ct_oid ct \<or> ct_code (rc_counter_type_id c) = Some (ct_oid ct))
              \<longleftrightarrow> ct_id (rc_counter_type_id c) = ct_id ct" if "c \<in> set ?cs" for c
  proof
    assume "ct_oid (rc_counter_type_id c) = ct_oid ct \<or> ct_code (rc_counter_type_id c) = Some (ct_oid ct)"
    then show "ct_id (rc_counter_type_id c) = ct_id ct"
      using wf mem [OF that] ct unfolding wf_counter_types_def by blast
  next
    assume "ct_id (rc_counter_type_id c) = ct_id ct"
    then have "rc_counter_type_id c = ct"
      using wf mem [OF that] ct unfolding wf_counter_types_def by blast
    then show "ct_oid (rc_counter_type_id c) = ct_oid ct \<or> ct_code (rc_counter_type_id c) = Some (ct_oid ct)"
      by simp
  qed
  have "filter (\<lambda>c. ct_oid (rc_counter_type_id c) = ct_oid ct
                     \<or> ct_code (rc_counter_type_id c) = Some (ct_oid ct)) ?cs
        = filter (\<lambda>c. ct_id (rc_counter_type_id c) = ct_id ct) ?cs"
    by (rule filter_cong) (auto simp: same)
  also have "\<dots> = (case find (\<lambda>c. ct_id (rc_counter_type_id c) = ct_id ct) ?cs of
                     None \<Rightarrow> [] | Some c \<Rightarrow> [c])"
    using wf r unfolding wf_counter_types_def by (intro filter_key_find) blast
  finally show ?thesis
    by (simp add: get_counter_value_def counter_value_of_def split: option.splits)
qed

lemma set_readings_in_period:
  "set (readings_in_period e pid df dte) = period_readings e pid df dte"
  by (auto simp: readings_in_period_def period_readings_def)

lemma sorted_readings_in_period:
  "sorted (map reading_timestamp (readings_in_period e pid df dte))"
  by (simp add: readings_in_period_def)

lemma previous_reading_None:
  "previous_reading e pid df = None \<longleftrightarrow> earlier_readings e pid df = {}"
proof -
  let ?xs = "sort_key reading_timestamp
               (filter (\<lambda>r. reading_printer_id r = pid \<and> reading_timestamp r < df)
                  (printer_reading_table e))"
  have "set ?xs = earlier_readings e pid df"
    by (auto simp: earlier_readings_def)
  moreover have "previous_reading e pid df = None \<longleftrightarrow> ?xs = []"
    by (simp add: previous_reading_def split: list.splits)
  ultimately show ?thesis by (metis set_empty)
qed

lemma previous_reading_Some:
  assumes "previous_reading e pid df = Some r"
  shows "r \<in> earlier_readings e pid df
         \<and> (\<forall>r'\<in>earlier_readings e pid df. reading_timestamp r' \<le> reading_timestamp r)"
proof -
  let ?xs = "sort_key reading_timestamp
               (filter (\<lambda>r. reading_printer_id r = pid \<and> reading_timestamp r < df)
                  (printer_reading_table e))"
  have set_xs: "set ?xs = earlier_readings e pid df"
    by (auto simp: earlier_readings_def)
  from assms obtain rest where "rev ?xs = r # rest"
    by (auto simp: previous_reading_def split: list.splits)
  then have "?xs = rev rest @ [r]" by (simp add: rev_eq_Cons_iff)
  then have ne: "?xs \<noteq> []" and last: "last ?xs = r" by simp_all
  have srt: "sorted (map reading_timestamp ?xs)" by simp
  have "\<forall>r'\<in>set ?xs. reading_timestamp r' \<le> reading_timestamp (last ?xs)"
  proof
    fix r' assume "r' \<in> set ?xs"
    with srt show "reading_timestamp r' \<le> reading_timestamp (last ?xs)"
      by (rule sorted_key_last_max)
  qed
  moreover have "last ?xs \<in> set ?xs" using ne by (rule last_in_set)
  ultimately show ?thesis using last set_xs by auto
qed

lemma counter_types_in_period_ids:
  "ct_id ` set (counter_types_in_period rs) = {ctid. \<exists>r\<in>set rs. carries r ctid}"
  unfolding counter_types_in_period_def types_fold_ids carries_def by auto

lemma counter_types_in_period_subset:
  "set rs \<subseteq> set (printer_reading_table e) \<Longrightarrow>
   set (counter_types_in_period rs) \<subseteq> all_counter_types e"
  unfolding counter_types_in_period_def all_counter_types_def
  using types_fold_subset [of "[]" rs] by fastforce

lemma counter_types_in_period_distinct:
  "distinct (map ct_id (counter_types_in_period rs))"
  unfolding counter_types_in_period_def by (rule types_fold_distinct) simp

lemma carries_some: "(\<exists>ctid. carries r ctid) \<longleftrightarrow> reading_counter_ids r \<noteq> []"
  by (cases "reading_counter_ids r") (auto simp: carries_def)

lemma counter_types_in_period_empty:
  "counter_types_in_period rs = [] \<longleftrightarrow> (\<forall>r\<in>set rs. reading_counter_ids r = [])"
proof -
  have "counter_types_in_period rs = [] \<longleftrightarrow> ct_id ` set (counter_types_in_period rs) = {}"
    by simp
  also have "\<dots> \<longleftrightarrow> (\<forall>r\<in>set rs. \<not> (\<exists>ctid. carries r ctid))"
    unfolding counter_types_in_period_ids by blast
  also have "\<dots> \<longleftrightarrow> (\<forall>r\<in>set rs. reading_counter_ids r = [])"
    by (simp add: carries_some)
  finally show ?thesis .
qed

lemma period_readings_subset: "period_readings e pid df dte \<subseteq> set (printer_reading_table e)"
  by (auto simp: period_readings_def)

lemma earlier_readings_subset: "earlier_readings e pid df \<subseteq> set (printer_reading_table e)"
  by (auto simp: earlier_readings_def)

lemma counter_usage_wf:
  assumes wf: "wf_counter_types e"
    and ct: "ct \<in> set (counter_types_in_period (readings_in_period e (printer_id p) df dte))"
  shows "\<exists>first_value last_value.
           counter_usage e p (readings_in_period e (printer_id p) df dte) df ct
             = Inr (Some (make_counter_data ct first_value last_value))
           \<and> is_final_value e (printer_id p) df dte (ct_id ct) last_value
           \<and> is_initial_value e (printer_id p) df (ct_id ct) first_value"
proof -
  let ?rs = "readings_in_period e (printer_id p) df dte"
  let ?rwc = "filter (\<lambda>r. ct_id ct \<in> ct_id ` set (mapped_counter_type_id (reading_counter_ids r))) ?rs"
  let ?l = "last ?rwc"
  have set_rwc: "set ?rwc = {r \<in> period_readings e (printer_id p) df dte. carries r (ct_id ct)}"
    by (auto simp: set_readings_in_period mapped_ids carries_def)
  from ct have "ct_id ct \<in> ct_id ` set (counter_types_in_period ?rs)" by (rule imageI)
  then obtain r0 where "r0 \<in> set ?rs" "carries r0 (ct_id ct)"
    unfolding counter_types_in_period_ids by blast
  then have "r0 \<in> set ?rwc" unfolding set_rwc by (simp add: set_readings_in_period)
  then have ne: "?rwc \<noteq> []" by (metis empty_iff empty_set)
  then have l_in: "?l \<in> set ?rwc" by (rule last_in_set)
  have srt: "sorted (map reading_timestamp ?rwc)"
    by (rule sorted_filter) (rule sorted_readings_in_period)
  have l_max: "reading_timestamp r' \<le> reading_timestamp ?l" if "r' \<in> set ?rwc" for r'
    using srt that by (rule sorted_key_last_max)
  have ct_all: "ct \<in> all_counter_types e"
    using counter_types_in_period_subset [of ?rs e] ct
    by (auto simp: set_readings_in_period dest: subsetD [OF period_readings_subset])
  have l_tab: "?l \<in> set (printer_reading_table e)"
    using l_in set_rwc period_readings_subset by blast
  have last_v: "get_counter_value ?l (ct_oid ct) = Inr (counter_value_of ?l (ct_id ct))"
    using wf l_tab ct_all by (rule get_counter_value_wf)
  have final: "is_final_value e (printer_id p) df dte (ct_id ct) (counter_value_of ?l (ct_id ct))"
    unfolding is_final_value_def
  proof (intro bexI [of _ ?l] conjI ballI impI)
    show "carries ?l (ct_id ct)" using l_in set_rwc by blast
    show "?l \<in> period_readings e (printer_id p) df dte" using l_in set_rwc by blast
    fix r' assume "r' \<in> period_readings e (printer_id p) df dte" "carries r' (ct_id ct)"
    then have "r' \<in> set ?rwc" unfolding set_rwc by simp
    then show "reading_timestamp r' \<le> reading_timestamp ?l" by (rule l_max)
  qed simp
  show ?thesis
  proof (cases "previous_reading e (printer_id p) df")
    case None
    then have "earlier_readings e (printer_id p) df = {}" by (simp add: previous_reading_None)
    then have "is_initial_value e (printer_id p) df (ct_id ct) 0"
      by (simp add: is_initial_value_def)
    moreover have "counter_usage e p ?rs df ct
        = Inr (Some (make_counter_data ct 0 (counter_value_of ?l (ct_id ct))))"
      using ne None last_v by (simp add: counter_usage_def Let_def)
    ultimately show ?thesis using final by blast
  next
    case (Some prev)
    from previous_reading_Some [OF Some]
    have prev_in: "prev \<in> earlier_readings e (printer_id p) df"
      and prev_max: "\<forall>r'\<in>earlier_readings e (printer_id p) df.
                       reading_timestamp r' \<le> reading_timestamp prev"
      by simp_all
    have "prev \<in> set (printer_reading_table e)"
      using prev_in earlier_readings_subset by blast
    with wf have first_v: "get_counter_value prev (ct_oid ct) = Inr (counter_value_of prev (ct_id ct))"
      using ct_all by (rule get_counter_value_wf)
    have "earlier_readings e (printer_id p) df \<noteq> {}" using prev_in by auto
    then have "is_initial_value e (printer_id p) df (ct_id ct) (counter_value_of prev (ct_id ct))"
      unfolding is_initial_value_def using prev_in prev_max by auto
    moreover have "counter_usage e p ?rs df ct
        = Inr (Some (make_counter_data ct (counter_value_of prev (ct_id ct))
                       (counter_value_of ?l (ct_id ct))))"
      using ne Some last_v first_v by (simp add: counter_usage_def Let_def)
    ultimately show ?thesis using final by blast
  qed
qed

subsection \<open>The result on a consistent database\<close>

lemma for_each_append_all_some:
  "\<forall>x\<in>set xs. \<exists>y. body x = Inr (Some y) \<and> P x y \<Longrightarrow>
   \<exists>ys. for_each_append body xs = Inr ys \<and> list_all2 P xs ys"
proof (induction xs)
  case Nil
  then show ?case by simp
next
  case (Cons x xs)
  then obtain y where y: "body x = Inr (Some y)" "P x y" by auto
  from Cons obtain ys where ys: "for_each_append body xs = Inr ys" "list_all2 P xs ys" by auto
  have "for_each_append body (x # xs) = Inr (y # ys)" using y ys by simp
  moreover have "list_all2 P (x # xs) (y # ys)" using y ys by simp
  ultimately show ?case by blast
qed

lemma printer_usage_of_wf:
  assumes wf: "wf_counter_types e"
  shows "\<exists>res. printer_usage_of e df dte p = Inr res
           \<and> (case res of
                 None \<Rightarrow> \<not> has_counters_in_period e df dte p
               | Some u \<Rightarrow> has_counters_in_period e df dte p \<and> pu_printer u = p
                            \<and> usage_entry_ok e df dte u)"
proof -
  let ?rs = "readings_in_period e (printer_id p) df dte"
  let ?cts = "counter_types_in_period ?rs"
  show ?thesis
  proof (cases "?cts = []")
    case True
    then have "\<not> has_counters_in_period e df dte p"
      by (simp add: counter_types_in_period_empty has_counters_in_period_def set_readings_in_period)
    moreover have "printer_usage_of e df dte p = Inr None"
      using True by (simp add: printer_usage_of_def Let_def)
    ultimately show ?thesis by simp
  next
    case False
    then have has: "has_counters_in_period e df dte p"
      by (simp add: counter_types_in_period_empty has_counters_in_period_def set_readings_in_period)
    then have rs_ne: "?rs \<noteq> []"
      by (auto simp: has_counters_in_period_def set_readings_in_period [symmetric])
    let ?P = "\<lambda>ct cd. cd_counter_type_id cd = ct_id ct
                \<and> counter_entry_ok e (printer_id p) df dte cd"
    have "\<forall>ct\<in>set ?cts. \<exists>cd. counter_usage e p ?rs df ct = Inr (Some cd) \<and> ?P ct cd"
    proof
      fix ct assume "ct \<in> set ?cts"
      with wf obtain fv lv where
        "counter_usage e p ?rs df ct = Inr (Some (make_counter_data ct fv lv))"
        "is_final_value e (printer_id p) df dte (ct_id ct) lv"
        "is_initial_value e (printer_id p) df (ct_id ct) fv"
        using counter_usage_wf by blast
      then show "\<exists>cd. counter_usage e p ?rs df ct = Inr (Some cd) \<and> ?P ct cd"
        by (auto simp: counter_entry_ok_def make_counter_data_def)
    qed
    then obtain cds where cds: "for_each_append (counter_usage e p ?rs df) ?cts = Inr cds"
      and all2: "list_all2 ?P ?cts cds"
      using for_each_append_all_some [of ?cts "counter_usage e p ?rs df" ?P] by blast
    from all2 have len: "length cds = length ?cts" by (simp add: list_all2_lengthD)
    with False have cds_ne: "cds \<noteq> []" by auto
    from all2 have ids: "map cd_counter_type_id cds = map ct_id ?cts"
      by (induction rule: list_all2_induct) auto
    from all2 have ok: "\<forall>cd\<in>set cds. counter_entry_ok e (printer_id p) df dte cd"
      by (induction rule: list_all2_induct) auto
    let ?u = "\<lparr>pu_printer = p, pu_printer_name = printer_name p,
               pu_location = location_display e p, pu_counters = cds\<rparr>"
    have res: "printer_usage_of e df dte p = Inr (Some ?u)"
      using rs_ne False cds cds_ne by (simp add: printer_usage_of_def Let_def)
    have "cd_counter_type_id ` set cds = ct_id ` set ?cts"
      using ids by (metis set_map)
    then have "usage_entry_ok e df dte ?u"
      using ids ok counter_types_in_period_distinct [of ?rs]
      by (simp add: usage_entry_ok_def counter_types_in_period_ids set_readings_in_period)
    with res has show ?thesis by simp
  qed
qed

lemma for_each_append_all_ok:
  "\<forall>x\<in>set xs. \<exists>r. body x = Inr r \<and> (case r of None \<Rightarrow> \<not> Q x | Some y \<Rightarrow> Q x \<and> g y = x \<and> R y) \<Longrightarrow>
   \<exists>ys. for_each_append body xs = Inr ys \<and> map g ys = filter Q xs \<and> (\<forall>y\<in>set ys. R y)"
proof (induction xs)
  case Nil
  then show ?case by simp
next
  case (Cons x xs)
  then obtain ys where ys: "for_each_append body xs = Inr ys" "map g ys = filter Q xs" "\<forall>y\<in>set ys. R y"
    by auto
  from Cons.prems obtain r where r: "body x = Inr r"
    "case r of None \<Rightarrow> \<not> Q x | Some y \<Rightarrow> Q x \<and> g y = x \<and> R y" by auto
  show ?case
  proof (cases r)
    case None
    with r ys show ?thesis by simp
  next
    case (Some y)
    with r ys have "for_each_append body (x # xs) = Inr (y # ys)" by simp
    moreover have "map g (y # ys) = filter Q (x # xs)" using Some r ys by simp
    moreover have "\<forall>y'\<in>set (y # ys). R y'" using Some r ys by simp
    ultimately show ?thesis by blast
  qed
qed

subsection \<open>The usage calculation on consistent counter types\<close>

text \<open>
  The period the searches of \<^verbatim>\<open>calculate_usage_by_printer\<close> use ends with the last
  second of the day of \<^verbatim>\<open>date_to\<close>, whether a date or a timestamp is passed.
\<close>

lemma date_to_end_last_second:
  "date_to_end (Datetime_arg t) div 86400 = t div 86400
   \<and> date_to_end (Datetime_arg t) mod 86400 = 86399
   \<and> t \<le> date_to_end (Datetime_arg t)
   \<and> date_to_end (Date_arg d) div 86400 = d
   \<and> date_to_end (Date_arg d) mod 86400 = 86399"
proof -
  have "t mod 86400 \<le> 86399"
    using pos_mod_bound [of 86400 t] by simp
  then have "t \<le> t div 86400 * 86400 + 86399"
    using div_mult_mod_eq [of t 86400] by linarith
  then show ?thesis
    by (simp add: date_to_end_def)
qed

text \<open>
  On a database whose counter types are consistent (an id names one counter type, OIDs
  are unique, a reading has at most one counter per type, and no counter type has another
  counter type's OID as its code) the calculation returns one entry for each printer of
  the partner that has a reading with counters in the period, with one counter entry per
  counter type of those readings: the final value is that of a last reading of the period
  carrying the type, the initial value is the one the latest reading before
  \<^verbatim>\<open>date_from\<close> holds for the type, and the total is \<^verbatim>\<open>max(0, final - initial)\<close>.
\<close>

lemma calculate_usage_by_printer_deltas:
  assumes "wf_counter_types e"
  shows "\<exists>usage. calculate_usage_by_printer e partner date_from date_to = Inr usage
           \<and> map pu_printer usage
               = filter (\<lambda>p. printer_partner_id p = partner
                              \<and> has_counters_in_period e date_from (date_to_end date_to) p)
                   (printer_device_table e)
           \<and> (\<forall>u\<in>set usage. usage_entry_ok e date_from (date_to_end date_to) u)"
proof -
  let ?ps = "filter (\<lambda>p. printer_partner_id p = partner) (printer_device_table e)"
  let ?dte = "date_to_end date_to"
  have "\<forall>p\<in>set ?ps. \<exists>r. printer_usage_of e date_from ?dte p = Inr r
          \<and> (case r of None \<Rightarrow> \<not> has_counters_in_period e date_from ?dte p
              | Some u \<Rightarrow> has_counters_in_period e date_from ?dte p \<and> pu_printer u = p
                          \<and> usage_entry_ok e date_from ?dte u)"
    using printer_usage_of_wf [OF assms] by blast
  from for_each_append_all_ok [OF this]
  obtain usage where "for_each_append (printer_usage_of e date_from ?dte) ?ps = Inr usage"
    "map pu_printer usage = filter (has_counters_in_period e date_from ?dte) ?ps"
    "\<forall>u\<in>set usage. usage_entry_ok e date_from ?dte u"
    by blast
  then show ?thesis
    by (auto simp: calculate_usage_by_printer_def conj_commute)
qed

lemma calculate_usage_by_printer_deltas_office:
  "wf_counter_types office_env
   \<and> (\<exists>usage. calculate_usage_by_printer office_env 7 86400 (Datetime_arg 86400) = Inr usage
         \<and> map pu_printer usage = [printer_row 1 7 1]
         \<and> list_all (usage_entry_ok office_env 86400 (date_to_end (Datetime_arg 86400))) usage)"
proof -
  have wf: "wf_counter_types office_env"
    by code_simp
  have sel: "filter (\<lambda>p. printer_partner_id p = 7
                         \<and> has_counters_in_period office_env 86400 (date_to_end (Datetime_arg 86400)) p)
               (printer_device_table office_env) = [printer_row 1 7 1]"
    by code_simp
  from calculate_usage_by_printer_deltas [OF wf, of 7 86400 "Datetime_arg 86400"]
  show ?thesis
    using wf sel by (auto simp: list_all_iff)
qed

subsection \<open>The claims about the usage calculation\<close>

text \<open>
  Claim C1. The claim promises a usage delta \<^verbatim>\<open>max(0, final - initial)\<close> for every
  printer of the partner with a reading in the period and every counter type of those
  readings. \<^verbatim>\<open>get_counter_value\<close>, documented to return the value of the counter or 0,
  looks the counter up by "OID or code" and reads \<^verbatim>\<open>value\<close> on whatever it finds.
  For a printer whose only reading, inside the period, carries the counter type with OID
  1.3.6.1 (100 pages) and a second counter type whose code is the string 1.3.6.1
  (30 pages), the lookup of 1.3.6.1 finds both counters and raises, and
  \<^verbatim>\<open>calculate_usage_by_printer\<close> returns nothing for the partner, where the claim
  expects the deltas 100 and 30.
\<close>

theorem calculate_usage_by_printer_code_clash:
  "filter (\<lambda>p. printer_partner_id p = 7) (printer_device_table clash_env) = [printer_row 1 7 1]
   \<and> filter (\<lambda>r. reading_printer_id r = 1 \<and> 86400 \<le> reading_timestamp r
                   \<and> reading_timestamp r \<le> 90000)
        (printer_reading_table clash_env)
      = [reading_at 1 1 7 86550 [(pages_total, 100), (pages_alias, 30)]]
   \<and> filter (\<lambda>r. reading_printer_id r = 1 \<and> reading_timestamp r < 86400)
        (printer_reading_table clash_env) = []
   \<and> map (\<lambda>c. (ct_id (rc_counter_type_id c), ct_oid (rc_counter_type_id c),
                 ct_code (rc_counter_type_id c), rc_value c))
        (reading_counter_ids (reading_at 1 1 7 86550 [(pages_total, 100), (pages_alias, 30)]))
      = [(1, ''1.3.6.1'', Some ''total'', 100), (3, ''1.3.6.3'', Some ''1.3.6.1'', 30)]
   \<and> get_counter_value (reading_at 1 1 7 86550 [(pages_total, 100), (pages_alias, 30)]) ''1.3.6.3''
      = Inr 30
   \<and> get_counter_value (reading_at 1 1 7 86550 [(pages_total, 100), (pages_alias, 30)]) ''1.3.6.1''
      = Inl Expected_singleton
   \<and> calculate_usage_by_printer clash_env 7 86400 (Datetime_arg 90000) = Inl Expected_singleton
   \<and> calculate_usage_by_printer clash_env 7 86400 (Date_arg 1) = Inl Expected_singleton"
  by code_simp

text \<open>
  Claim C3. The docstring of \<^verbatim>\<open>calculate_usage_by_printer\<close> documents four cases; its
  Case 2 says that with several readings in the period the initial counter is the lowest
  reading of the period. The code has no such case: the initial counter is always the
  value before the period, or 0. For a printer whose only readings, 100 and 150 pages,
  both lie in the period, the code starts from 0 and bills 150 pages where the documented
  case starts from 100 and bills 50; with an earlier reading of 100 pages and readings of
  180 and 260 pages in the period it starts from 100, not from 180.
\<close>

theorem calculate_usage_by_printer_several_readings:
  "map (\<lambda>r. counter_value_of r 1)
     (readings_in_period new_printer_env 1 86400 (date_to_end (Datetime_arg 86400))) = [100, 150]
   \<and> previous_reading new_printer_env 1 86400 = None
   \<and> map_sum id
        (map (\<lambda>u. map (\<lambda>cd. (cd_counter_start cd, cd_counter_end cd, cd_total_pages cd))
                   (pu_counters u)))
        (calculate_usage_by_printer new_printer_env 7 86400 (Datetime_arg 86400))
      = Inr [[(0, 150, 150)]]
   \<and> map (\<lambda>r. counter_value_of r 1)
        (readings_in_period office_env 1 86400 (date_to_end (Datetime_arg 86400))) = [180, 260]
   \<and> map_sum id
        (map (\<lambda>u. map (\<lambda>cd. (cd_counter_type_id cd, cd_counter_start cd, cd_counter_end cd,
                              cd_total_pages cd))
                   (pu_counters u)))
        (calculate_usage_by_printer office_env 7 86400 (Datetime_arg 86400))
      = Inr [[(1, 100, 260, 160), (2, 0, 40, 40)]]"
  by code_simp

section \<open>Counters of a billing review\<close>

lemma check_counters_valid_iff:
  "check_counters_valid record = Inr ()
   \<longleftrightarrow> 0 \<le> rvc_counter_start record \<and> rvc_counter_start record \<le> rvc_counter_end record"
  by (auto simp: check_counters_valid_def)

lemma create_review_counter_Inr:
  "create_review_counter vals = Inr stored \<Longrightarrow>
   stored = vals \<and> 0 \<le> rvc_counter_start vals \<and> rvc_counter_start vals \<le> rvc_counter_end vals"
  by (auto simp: create_review_counter_def check_counters_valid_def split: if_splits)

lemma rvc_total_pages_nonneg: "0 \<le> rvc_total_pages record"
  by (simp add: rvc_total_pages_def)

text \<open>
  Claim C8. Billed page counts are never negative: every per-counter total that
  \<^verbatim>\<open>calculate_usage_by_printer\<close> returns is \<^verbatim>\<open>max(0, counter_end - counter_start)\<close>, hence
  at least 0; the constraint of a review counter passes exactly when
  \<^verbatim>\<open>0 <= counter_start <= counter_end\<close> and raises a validation error otherwise, so a
  counter that was created satisfies it; and the computed \<^verbatim>\<open>total_pages\<close> of a review
  counter is \<^verbatim>\<open>max(0, counter_end - counter_start)\<close>.
\<close>

theorem billed_pages_never_negative:
  "(calculate_usage_by_printer e partner date_from date_to = Inr usage \<longrightarrow>
      (\<forall>u\<in>set usage. \<forall>cd\<in>set (pu_counters u).
         cd_total_pages cd = max 0 (cd_counter_end cd - cd_counter_start cd)
         \<and> 0 \<le> cd_total_pages cd))
   \<and> (check_counters_valid record = Inr ()
        \<longleftrightarrow> 0 \<le> rvc_counter_start record \<and> rvc_counter_start record \<le> rvc_counter_end record)
   \<and> (\<exists>err. check_counters_valid record = Inl err) = (check_counters_valid record \<noteq> Inr ())
   \<and> (create_review_counter record = Inr stored \<longrightarrow>
        0 \<le> rvc_counter_start stored \<and> rvc_counter_start stored \<le> rvc_counter_end stored)
   \<and> rvc_total_pages record = max 0 (rvc_counter_end record - rvc_counter_start record)
   \<and> 0 \<le> rvc_total_pages record"
proof (intro conjI impI ballI)
  fix u cd
  assume "calculate_usage_by_printer e partner date_from date_to = Inr usage"
    "u \<in> set usage" "cd \<in> set (pu_counters u)"
  then show "cd_total_pages cd = max 0 (cd_counter_end cd - cd_counter_start cd)"
    by (rule calculate_usage_total)
  then show "0 \<le> cd_total_pages cd" by simp
next
  show "check_counters_valid record = Inr ()
        \<longleftrightarrow> 0 \<le> rvc_counter_start record \<and> rvc_counter_start record \<le> rvc_counter_end record"
    by (rule check_counters_valid_iff)
  show "(\<exists>err. check_counters_valid record = Inl err) = (check_counters_valid record \<noteq> Inr ())"
    by (cases "check_counters_valid record") auto
  show "rvc_total_pages record = max 0 (rvc_counter_end record - rvc_counter_start record)"
    by (simp add: rvc_total_pages_def)
  show "0 \<le> rvc_total_pages record" by (rule rvc_total_pages_nonneg)
next
  assume "create_review_counter record = Inr stored"
  then have "stored = record \<and> 0 \<le> rvc_counter_start record
             \<and> rvc_counter_start record \<le> rvc_counter_end record"
    by (rule create_review_counter_Inr)
  then show "0 \<le> rvc_counter_start stored" "rvc_counter_start stored \<le> rvc_counter_end stored"
    by simp_all
qed

theorem billed_pages_never_negative_witness:
  "(\<exists>usage. calculate_usage_by_printer office_env 7 86400 (Datetime_arg 86400) = Inr usage
       \<and> usage \<noteq> []
       \<and> list_all (\<lambda>u. pu_counters u \<noteq> []
                        \<and> list_all (\<lambda>cd. cd_total_pages cd = max 0 (cd_counter_end cd - cd_counter_start cd)
                                          \<and> 0 \<le> cd_total_pages cd) (pu_counters u)) usage)
   \<and> create_review_counter (counter_row 100 260 (1 / 50)) = Inr (counter_row 100 260 (1 / 50))
   \<and> check_counters_valid (counter_row 100 260 (1 / 50)) = Inr ()
   \<and> check_counters_valid (counter_row 260 100 (1 / 50)) = Inl (Counter_end_below_start 100 260)
   \<and> rvc_total_pages (counter_row 260 100 (1 / 50)) = 0
   \<and> rvc_total_pages (counter_row 100 260 (1 / 50)) = 160"
proof -
  have ok: "\<not> isl (calculate_usage_by_printer office_env 7 86400 (Datetime_arg 86400))"
    by code_simp
  then obtain usage where
    usage: "calculate_usage_by_printer office_env 7 86400 (Datetime_arg 86400) = Inr usage"
    by (cases "calculate_usage_by_printer office_env 7 86400 (Datetime_arg 86400)") auto
  have ne: "list_all (\<lambda>u. pu_counters u \<noteq> [])
              (projr (calculate_usage_by_printer office_env 7 86400 (Datetime_arg 86400)))
            \<and> projr (calculate_usage_by_printer office_env 7 86400 (Datetime_arg 86400)) \<noteq> []"
    by code_simp
  have created: "create_review_counter (counter_row 100 260 (1 / 50)) = Inr (counter_row 100 260 (1 / 50))"
    by code_simp
  have rest: "check_counters_valid (counter_row 100 260 (1 / 50)) = Inr ()
     \<and> check_counters_valid (counter_row 260 100 (1 / 50)) = Inl (Counter_end_below_start 100 260)
     \<and> rvc_total_pages (counter_row 260 100 (1 / 50)) = 0
     \<and> rvc_total_pages (counter_row 100 260 (1 / 50)) = 160"
    by code_simp
  from billed_pages_never_negative
         [of office_env 7 86400 "Datetime_arg 86400" usage "counter_row 100 260 (1 / 50)"
             "counter_row 100 260 (1 / 50)"]
  show ?thesis
    using usage ne created rest by (auto simp: list_all_iff)
qed

section \<open>Customer prices in new review lines\<close>

lemma get_price_none:
  "\<not> has_price e partner ct \<Longrightarrow> get_price_for_partner_counter e partner ct = 0"
  by (auto simp: has_price_def get_price_for_partner_counter_def filter_empty_conv split: list.splits)

lemma get_price_unique:
  assumes "unique_prices e" "p \<in> set (partner_counter_price_table e)"
    "pcp_partner_id p = partner" "pcp_counter_type_id p = ct"
  shows "get_price_for_partner_counter e partner ct = pcp_unit_price p"
proof -
  let ?key = "\<lambda>p. (pcp_partner_id p, pcp_counter_type_id p)"
  have "filter (\<lambda>q. pcp_partner_id q = partner \<and> pcp_counter_type_id q = ct) (partner_counter_price_table e)
        = filter (\<lambda>q. ?key q = (partner, ct)) (partner_counter_price_table e)"
    by (rule filter_cong) auto
  also have "\<dots> = (case find (\<lambda>q. ?key q = (partner, ct)) (partner_counter_price_table e) of
                      None \<Rightarrow> [] | Some q \<Rightarrow> [q])"
    using assms(1) unfolding unique_prices_def by (rule filter_key_find)
  finally have flt: "filter (\<lambda>q. pcp_partner_id q = partner \<and> pcp_counter_type_id q = ct)
                       (partner_counter_price_table e)
        = (case find (\<lambda>q. ?key q = (partner, ct)) (partner_counter_price_table e) of
                      None \<Rightarrow> [] | Some q \<Rightarrow> [q])" .
  have "p \<in> set (filter (\<lambda>q. pcp_partner_id q = partner \<and> pcp_counter_type_id q = ct)
                  (partner_counter_price_table e))"
    using assms by simp
  with flt have "filter (\<lambda>q. pcp_partner_id q = partner \<and> pcp_counter_type_id q = ct)
                   (partner_counter_price_table e) = [p]"
    by (auto split: option.splits)
  then show ?thesis by (simp add: get_price_for_partner_counter_def)
qed

lemma create_counters_price:
  "create_counters e partner cds = Inr cs \<Longrightarrow> c \<in> set cs \<Longrightarrow>
   rvc_unit_price c = get_price_for_partner_counter e partner (rvc_counter_type_id c)"
proof (induction cds arbitrary: cs)
  case Nil
  then show ?case by simp
next
  case (Cons cd cds)
  then show ?case
    by (auto simp: create_review_counter_def split: sum.splits)
qed

lemma create_lines_price:
  "create_lines e partner usage = Inr lines \<Longrightarrow> line \<in> set lines \<Longrightarrow>
   rl_include_in_invoice line
   \<and> (\<forall>c\<in>set (rl_counter_line_ids line).
         rvc_unit_price c = get_price_for_partner_counter e partner (rvc_counter_type_id c))"
proof (induction usage arbitrary: lines)
  case Nil
  then show ?case by simp
next
  case (Cons u usage)
  from Cons.prems(1) obtain cs ls where
    cs: "create_counters e partner (pu_counters u) = Inr cs"
    and ls: "create_lines e partner usage = Inr ls"
    and lines: "lines = \<lparr>rl_printer_id = printer_id (pu_printer u),
                     rl_printer_name = printer_name (pu_printer u),
                     rl_location_name = related_location_name e (pu_printer u),
                     rl_counter_line_ids = cs,
                     rl_include_in_invoice = True,
                     rl_notes = None\<rparr> # ls"
    by (auto split: sum.splits)
  from Cons.prems(2) lines consider
    "line = \<lparr>rl_printer_id = printer_id (pu_printer u),
                     rl_printer_name = printer_name (pu_printer u),
                     rl_location_name = related_location_name e (pu_printer u),
                     rl_counter_line_ids = cs,
                     rl_include_in_invoice = True,
                     rl_notes = None\<rparr>" | "line \<in> set ls"
    by auto
  then show ?case
  proof cases
    case 1
    then show ?thesis using create_counters_price [OF cs] by simp
  next
    case 2
    then show ?thesis using Cons.IH [OF ls] by simp
  qed
qed

lemma sum_list_filter_zero:
  fixes f :: "'a \<Rightarrow> rat"
  shows "\<forall>x\<in>set xs. \<not> P x \<longrightarrow> f x = 0 \<Longrightarrow> sum_list (map f xs) = sum_list (map f (filter P xs))"
  by (induction xs) auto

lemma create_lines_unpriced:
  assumes "create_lines e partner usage = Inr lines" "line \<in> set lines"
  shows "unpriced_free e partner line"
proof -
  from create_lines_price [OF assms]
  have inc: "rl_include_in_invoice line"
    and pr: "\<forall>c\<in>set (rl_counter_line_ids line).
               rvc_unit_price c = get_price_for_partner_counter e partner (rvc_counter_type_id c)"
    by simp_all
  have zero: "rvc_unit_price c = 0 \<and> rvc_subtotal c = 0"
    if "c \<in> set (rl_counter_line_ids line)" "\<not> has_price e partner (rvc_counter_type_id c)" for c
    using that pr get_price_none [of e partner "rvc_counter_type_id c"]
    by (simp add: rvc_subtotal_def)
  have "sum_list (map rvc_subtotal (rl_counter_line_ids line))
        = sum_list (map rvc_subtotal
             (filter (\<lambda>c. has_price e partner (rvc_counter_type_id c)) (rl_counter_line_ids line)))"
    by (rule sum_list_filter_zero) (simp add: zero)
  with inc zero show ?thesis
    by (simp add: unpriced_free_def rl_estimated_amount_def)
qed

lemma wizard_lines:
  "wizard_action_generate_invoice e wz seq uid = Inr review \<Longrightarrow>
   \<exists>partner usage. wz_partner_id wz = Some partner \<and> review_partner_id review = partner
      \<and> state review = Draft
      \<and> create_lines e partner usage = Inr (line_ids review)"
  by (auto simp: wizard_action_generate_invoice_def split: option.splits sum.splits if_splits)

lemma recalculate_lines:
  "action_recalculate_all e self = Inr review \<Longrightarrow>
   \<exists>usage. review_partner_id review = review_partner_id self
      \<and> create_lines e (review_partner_id self) usage = Inr (line_ids review)"
  by (auto simp: action_recalculate_all_def split: sum.splits if_splits)

lemma create_counters_priced:
  "create_counters e partner cds = Inr cs \<Longrightarrow> list_all2 (priced_counter e partner) cds cs"
proof (induction cds arbitrary: cs)
  case Nil
  then show ?case by simp
next
  case (Cons cd cds)
  then show ?case
    by (auto simp: create_review_counter_def priced_counter_def split: sum.splits)
qed

lemma create_lines_priced:
  "create_lines e partner usage = Inr lines \<Longrightarrow> list_all2 (priced_line e partner) usage lines"
proof (induction usage arbitrary: lines)
  case Nil
  then show ?case by simp
next
  case (Cons u usage)
  from Cons.prems obtain cs ls where
    cs: "create_counters e partner (pu_counters u) = Inr cs"
    and ls: "create_lines e partner usage = Inr ls"
    and lines: "lines = \<lparr>rl_printer_id = printer_id (pu_printer u),
                     rl_printer_name = printer_name (pu_printer u),
                     rl_location_name = related_location_name e (pu_printer u),
                     rl_counter_line_ids = cs,
                     rl_include_in_invoice = True,
                     rl_notes = None\<rparr> # ls"
    by (auto split: sum.splits)
  from create_counters_priced [OF cs] Cons.IH [OF ls] lines show ?case
    by (simp add: priced_line_def)
qed

lemma wizard_usage:
  "wizard_action_generate_invoice e wz seq uid = Inr review \<Longrightarrow>
   \<exists>usage. wz_partner_id wz = Some (review_partner_id review)
      \<and> calculate_usage_by_printer e (review_partner_id review) (wz_date_from wz * 86400)
          (Datetime_arg (wz_date_to wz * 86400)) = Inr usage
      \<and> create_lines e (review_partner_id review) usage = Inr (line_ids review)"
  by (auto simp: wizard_action_generate_invoice_def to_datetime_def
        split: option.splits sum.splits if_splits)

lemma recalculate_usage:
  "action_recalculate_all e self = Inr review \<Longrightarrow>
   \<exists>usage. review_partner_id review = review_partner_id self
      \<and> calculate_usage_by_printer e (review_partner_id self) (review_date_from self * 86400)
          (Datetime_arg (review_date_to self * 86400)) = Inr usage
      \<and> create_lines e (review_partner_id self) usage = Inr (line_ids review)"
  by (auto simp: action_recalculate_all_def to_datetime_def split: sum.splits if_splits)

text \<open>
  Claim C9. \<^verbatim>\<open>get_price_for_partner_counter\<close> returns 0.0 when no price is configured
  for the partner and the counter type and, the price table holding at most one row per
  pair, the unit price of the configured row otherwise. When the billing wizard creates a
  review, and when \<^verbatim>\<open>action_recalculate_all\<close> recreates the lines of one, the lines
  are those of the usage \<^verbatim>\<open>calculate_usage_by_printer\<close> returns for the partner and
  the period: one line per printer entry and, in it, one counter per counter entry, with
  the counter type and the initial and final values of the entry and with the unit price
  \<^verbatim>\<open>get_price_for_partner_counter\<close> returns. Consequently a counter without a
  configured price has unit price 0.0 and subtotal 0 in the new lines, and the estimated
  amount of a line is the sum over its priced counters alone.
\<close>

theorem get_price_for_partner_counter_configured:
  "(\<not> has_price e partner ct \<longrightarrow> get_price_for_partner_counter e partner ct = 0)
   \<and> (unique_prices e \<longrightarrow>
        (\<forall>p\<in>set (partner_counter_price_table e).
           pcp_partner_id p = partner \<and> pcp_counter_type_id p = ct \<longrightarrow>
           get_price_for_partner_counter e partner ct = pcp_unit_price p))
   \<and> (wizard_action_generate_invoice e wz seq uid = Inr review \<longrightarrow>
        (\<exists>usage. wz_partner_id wz = Some (review_partner_id review)
           \<and> calculate_usage_by_printer e (review_partner_id review) (wz_date_from wz * 86400)
               (Datetime_arg (wz_date_to wz * 86400)) = Inr usage
           \<and> list_all2 (priced_line e (review_partner_id review)) usage (line_ids review))
        \<and> (\<forall>line\<in>set (line_ids review). unpriced_free e (review_partner_id review) line))
   \<and> (action_recalculate_all e self = Inr review' \<longrightarrow>
        (\<exists>usage. review_partner_id review' = review_partner_id self
           \<and> calculate_usage_by_printer e (review_partner_id self) (review_date_from self * 86400)
               (Datetime_arg (review_date_to self * 86400)) = Inr usage
           \<and> list_all2 (priced_line e (review_partner_id self)) usage (line_ids review'))
        \<and> (\<forall>line\<in>set (line_ids review'). unpriced_free e (review_partner_id review') line))"
proof (intro conjI impI ballI)
  assume "\<not> has_price e partner ct"
  then show "get_price_for_partner_counter e partner ct = 0" by (rule get_price_none)
next
  fix p
  assume "unique_prices e" "p \<in> set (partner_counter_price_table e)"
    "pcp_partner_id p = partner \<and> pcp_counter_type_id p = ct"
  then show "get_price_for_partner_counter e partner ct = pcp_unit_price p"
    using get_price_unique by blast
next
  assume "wizard_action_generate_invoice e wz seq uid = Inr review"
  from wizard_usage [OF this] obtain usage where
    u: "wz_partner_id wz = Some (review_partner_id review)"
      "calculate_usage_by_printer e (review_partner_id review) (wz_date_from wz * 86400)
          (Datetime_arg (wz_date_to wz * 86400)) = Inr usage"
    and cl: "create_lines e (review_partner_id review) usage = Inr (line_ids review)"
    by blast
  from u create_lines_priced [OF cl]
  show "\<exists>usage. wz_partner_id wz = Some (review_partner_id review)
           \<and> calculate_usage_by_printer e (review_partner_id review) (wz_date_from wz * 86400)
               (Datetime_arg (wz_date_to wz * 86400)) = Inr usage
           \<and> list_all2 (priced_line e (review_partner_id review)) usage (line_ids review)"
    by (intro exI [of _ usage]) simp
next
  fix line
  assume "wizard_action_generate_invoice e wz seq uid = Inr review" "line \<in> set (line_ids review)"
  then show "unpriced_free e (review_partner_id review) line"
    using wizard_lines create_lines_unpriced by blast
next
  assume "action_recalculate_all e self = Inr review'"
  from recalculate_usage [OF this] obtain usage where
    u: "review_partner_id review' = review_partner_id self"
      "calculate_usage_by_printer e (review_partner_id self) (review_date_from self * 86400)
          (Datetime_arg (review_date_to self * 86400)) = Inr usage"
    and cl: "create_lines e (review_partner_id self) usage = Inr (line_ids review')"
    by blast
  from u create_lines_priced [OF cl]
  show "\<exists>usage. review_partner_id review' = review_partner_id self
           \<and> calculate_usage_by_printer e (review_partner_id self) (review_date_from self * 86400)
               (Datetime_arg (review_date_to self * 86400)) = Inr usage
           \<and> list_all2 (priced_line e (review_partner_id self)) usage (line_ids review')"
    by (intro exI [of _ usage]) simp
next
  fix line
  assume "action_recalculate_all e self = Inr review'" "line \<in> set (line_ids review')"
  then show "unpriced_free e (review_partner_id review') line"
    using recalculate_lines create_lines_unpriced by metis
qed

theorem get_price_for_partner_counter_configured_witness:
  "\<not> has_price office_env 7 2
   \<and> get_price_for_partner_counter office_env 7 2 = 0
   \<and> unique_prices office_env
   \<and> get_price_for_partner_counter office_env 7 1 = 1 / 50
   \<and> (\<exists>review usage. wizard_action_generate_invoice office_env office_wizard None 1 = Inr review
         \<and> calculate_usage_by_printer office_env 7 86400 (Datetime_arg 86400) = Inr usage
         \<and> map (\<lambda>u. (printer_id (pu_printer u),
                      map (\<lambda>cd. (cd_counter_type_id cd, cd_counter_start cd, cd_counter_end cd))
                        (pu_counters u))) usage
             = [(1, [(1, 100, 260), (2, 0, 40)])]
         \<and> list_all2 (priced_line office_env 7) usage (line_ids review)
         \<and> map (\<lambda>l. (rl_printer_id l,
                      map (\<lambda>c. (rvc_counter_type_id c, rvc_counter_start c, rvc_counter_end c,
                                 rvc_unit_price c, rvc_subtotal c))
                        (rl_counter_line_ids l),
                      rl_estimated_amount l)) (line_ids review)
             = [(1, [(1, 100, 260, 1 / 50, 16 / 5), (2, 0, 40, 0, 0)], 16 / 5)]
         \<and> list_all (unpriced_free office_env 7) (line_ids review))
   \<and> (\<exists>review. action_recalculate_all office_env sample_review = Inr review
         \<and> map (\<lambda>l. (rl_printer_id l,
                      map (\<lambda>c. (rvc_counter_type_id c, rvc_counter_start c, rvc_counter_end c,
                                 rvc_unit_price c, rvc_subtotal c))
                        (rl_counter_line_ids l),
                      rl_estimated_amount l)) (line_ids review)
             = [(1, [(1, 100, 260, 1 / 50, 16 / 5), (2, 0, 40, 0, 0)], 16 / 5)]
         \<and> list_all (unpriced_free office_env 7) (line_ids review))"
proof -
  let ?w = "wizard_action_generate_invoice office_env office_wizard None 1"
  let ?r = "action_recalculate_all office_env sample_review"
  let ?u = "calculate_usage_by_printer office_env 7 86400 (Datetime_arg 86400)"
  let ?rows = "\<lambda>review. map (\<lambda>l. (rl_printer_id l,
                      map (\<lambda>c. (rvc_counter_type_id c, rvc_counter_start c, rvc_counter_end c,
                                 rvc_unit_price c, rvc_subtotal c))
                        (rl_counter_line_ids l),
                      rl_estimated_amount l)) (line_ids review)"
  have facts: "\<not> has_price office_env 7 2 \<and> unique_prices office_env
      \<and> get_price_for_partner_counter office_env 7 1 = 1 / 50"
    by code_simp
  have w: "\<not> isl ?w \<and> review_partner_id (projr ?w) = 7
      \<and> ?rows (projr ?w) = [(1, [(1, 100, 260, 1 / 50, 16 / 5), (2, 0, 40, 0, 0)], 16 / 5)]"
    by code_simp
  have r: "\<not> isl ?r \<and> review_partner_id (projr ?r) = 7
      \<and> ?rows (projr ?r) = [(1, [(1, 100, 260, 1 / 50, 16 / 5), (2, 0, 40, 0, 0)], 16 / 5)]"
    by code_simp
  have u: "\<not> isl ?u
      \<and> map (\<lambda>u. (printer_id (pu_printer u),
                      map (\<lambda>cd. (cd_counter_type_id cd, cd_counter_start cd, cd_counter_end cd))
                        (pu_counters u))) (projr ?u)
             = [(1, [(1, 100, 260), (2, 0, 40)])]"
    by code_simp
  have wz: "wz_date_from office_wizard * 86400 = 86400 \<and> wz_date_to office_wizard * 86400 = 86400"
    by code_simp
  from w obtain review where review: "?w = Inr review" by (cases ?w) auto
  from r obtain review' where review': "?r = Inr review'" by (cases ?r) auto
  from u obtain usage where usage: "?u = Inr usage" by (cases ?u) auto
  from get_price_for_partner_counter_configured
         [of office_env 7 2 office_wizard None 1 review sample_review review']
  have p1: "get_price_for_partner_counter office_env 7 2 = 0"
    and p2: "\<exists>usage. calculate_usage_by_printer office_env (review_partner_id review)
               (wz_date_from office_wizard * 86400)
               (Datetime_arg (wz_date_to office_wizard * 86400)) = Inr usage
           \<and> list_all2 (priced_line office_env (review_partner_id review)) usage (line_ids review)"
    and p3: "\<forall>line\<in>set (line_ids review). unpriced_free office_env (review_partner_id review) line"
    and p4: "\<forall>line\<in>set (line_ids review'). unpriced_free office_env (review_partner_id review') line"
    using facts review review' by blast+
  from p2 usage w review wz
  have p2': "list_all2 (priced_line office_env 7) usage (line_ids review)"
    by auto
  show ?thesis
    using facts p1 p2' p3 p4 w r u review review' usage
    by (intro conjI exI [of _ review] exI [of _ usage] exI [of _ review'])
       (simp_all add: list_all_iff)
qed
section \<open>The invoice of a review\<close>

subsection \<open>Grouping the lines by location\<close>





















section \<open>The states of a review\<close>

lemma action_generate_invoice_invoiced:
  "state self = Invoiced \<Longrightarrow> action_generate_invoice e self today now = Inl Review_already_invoiced"
  by (simp add: action_generate_invoice_def)

lemma action_cancel_invoiced:
  "state self = Invoiced \<Longrightarrow> action_cancel self = Inl Cancel_invoiced"
  by (simp add: action_cancel_def)

lemma action_set_to_draft_invoice:
  "invoice_id self \<noteq> None \<Longrightarrow> action_set_to_draft self = Inl Draft_with_invoice"
  by (simp add: action_set_to_draft_def)

lemma action_confirm_invoiced:
  "line_ids self \<noteq> [] \<Longrightarrow>
   action_confirm self uid now
     = Inr (self\<lparr>state := Confirmed, confirmed_by := Some uid, confirmed_date := Some now\<rparr>)"
  by (simp add: action_confirm_def)

text \<open>
  Claim C7. A review in state invoiced refuses \<^verbatim>\<open>action_generate_invoice\<close> and
  \<^verbatim>\<open>action_cancel\<close>, and a review with an invoice refuses \<^verbatim>\<open>action_set_to_draft\<close>
  (the three lemmas above). \<^verbatim>\<open>action_confirm\<close> has no such guard: it only asks for
  a line, so it takes an invoiced review back to confirmed, and the next
  \<^verbatim>\<open>action_generate_invoice\<close> creates a second invoice and overwrites \<^verbatim>\<open>invoice_id\<close>.
  The run below confirms and invoices the example review twice: invoices 1 and 2 exist
  afterwards, and the review points at invoice 2.
\<close>

theorem review_invoiced_twice:
  "map_sum id (\<lambda>(e, r). (map move_id (account_move_table e), state r, invoice_id r))
     (review_run 1 1 90000 (office_env, sample_review) [Confirm, Generate_invoice])
     = Inr ([1], Invoiced, Some 1)
   \<and> map_sum id (\<lambda>(e, r). (map move_id (account_move_table e), state r, invoice_id r))
       (review_run 1 1 90000 (office_env, sample_review) [Confirm, Generate_invoice, Confirm])
     = Inr ([1], Confirmed, Some 1)
   \<and> map_sum id (\<lambda>(e, r). (map move_id (account_move_table e), state r, invoice_id r))
       (review_run 1 1 90000 (office_env, sample_review)
          [Confirm, Generate_invoice, Confirm, Generate_invoice])
     = Inr ([1, 2], Invoiced, Some 2)"
  by code_simp

section \<open>Token authentication of the routes\<close>

lemma find_filter_None: "find P xs = None \<longleftrightarrow> filter P xs = []"
  by (induction xs) auto

lemma find_filter_Cons: "filter P xs = y # ys \<Longrightarrow> find P xs = Some y"
  by (induction xs) (auto split: if_splits)

lemma find_Some_filter: "find P xs = Some y \<Longrightarrow> \<exists>ys. filter P xs = y # ys"
  by (induction xs) (auto split: if_splits)

lemma validate_no_token:
  "location_token req = None \<or> location_token req = Some [] \<Longrightarrow>
   validate_location_token func e req now = (e, Response 401 Token_required)"
  by (auto simp: validate_location_token_def)

lemma validate_unknown_token:
  "location_token req = Some t \<Longrightarrow> t \<noteq> [] \<Longrightarrow> active_locations_with_token e t = [] \<Longrightarrow>
   validate_location_token func e req now = (e, Response 403 Token_invalid)"
  by (simp add: validate_location_token_def active_locations_with_token_def find_filter_None [symmetric])

lemma validate_inactive_token:
  "location_token req = Some t \<Longrightarrow> t \<noteq> [] \<Longrightarrow> active_locations_with_token e t = l # ls \<Longrightarrow>
   \<not> token_active l \<Longrightarrow>
   validate_location_token func e req now = (e, Response 403 Token_deactivated)"
  by (simp add: validate_location_token_def active_locations_with_token_def find_filter_Cons)

lemma validate_active_token:
  "location_token req = Some t \<Longrightarrow> t \<noteq> [] \<Longrightarrow> active_locations_with_token e t = l # ls \<Longrightarrow>
   token_active l \<Longrightarrow>
   \<exists>e' r. validate_location_token func e req now = (e', Returned r)"
  by (simp add: validate_location_token_def active_locations_with_token_def find_filter_Cons
        split_def Let_def)

lemma validate_returned:
  assumes "snd (validate_location_token func e req now) = Returned r"
  shows "\<exists>t l ls. location_token req = Some t \<and> t \<noteq> []
           \<and> active_locations_with_token e t = l # ls \<and> token_active l"
proof (cases "location_token req")
  case None
  with assms show ?thesis by (simp add: validate_location_token_def)
next
  case (Some t)
  show ?thesis
  proof (cases "t = []")
    case True
    with Some assms show ?thesis by (simp add: validate_location_token_def)
  next
    case False
    show ?thesis
    proof (cases "find (\<lambda>l. access_token l = Some t \<and> is_active l) (printer_location_table e)")
      case None
      with Some False assms show ?thesis by (simp add: validate_location_token_def)
    next
      case found: (Some l)
      have act: "token_active l"
      proof (rule ccontr)
        assume "\<not> token_active l"
        with Some False found assms show False by (simp add: validate_location_token_def)
      qed
      from find_Some_filter [OF found] obtain ls where
        "active_locations_with_token e t = l # ls"
        by (auto simp: active_locations_with_token_def)
      with Some False act show ?thesis by blast
    qed
  qed
qed

lemma unique_token_first:
  assumes "unique_tokens e" "l \<in> set (printer_location_table e)"
    "access_token l = Some t" "is_active l"
  shows "\<exists>ls. active_locations_with_token e t = l # ls"
proof -
  have "l \<in> set (active_locations_with_token e t)"
    using assms by (simp add: active_locations_with_token_def)
  then obtain l' ls where eq: "active_locations_with_token e t = l' # ls"
    by (cases "active_locations_with_token e t") auto
  then have "l' \<in> set (active_locations_with_token e t)" by simp
  then have "l' \<in> set (printer_location_table e)" "access_token l' = Some t"
    by (simp_all add: active_locations_with_token_def)
  with assms(2,3) have "l' = l"
    using assms(1) [unfolded unique_tokens_def, rule_format, of l' l] by simp
  with eq show ?thesis by blast
qed

text \<open>
  Claim C4. Each of the four sync routes is the endpoint wrapped in
  \<^verbatim>\<open>validate_location_token\<close>. A request without the header, or with an empty header
  value, receives the 401 response; a request whose non-empty token matches no active
  location receives a 403 response, and so does one whose token matches a location with
  \<^verbatim>\<open>token_active\<close> unset (tokens being unique, as the location model demands); a
  request whose token matches an active location with an active token reaches the
  endpoint, and no other request does.

  The empty header value is where the claim as written fails: the empty token matches no
  active location, yet the guard \<^verbatim>\<open>if not location_token\<close> answers 401, not 403.
\<close>

theorem route_token_authenticated:
  "(location_token req = None \<or> location_token req = Some [] \<longrightarrow>
      route h ep e req now = (e, Response 401 Token_required))
   \<and> (location_token req = Some t \<and> t \<noteq> [] \<and> active_locations_with_token e t = [] \<longrightarrow>
        route h ep e req now = (e, Response 403 Token_invalid))
   \<and> (location_token req = Some t \<and> t \<noteq> [] \<and> unique_tokens e
        \<and> l \<in> set (printer_location_table e) \<and> access_token l = Some t \<and> is_active l
        \<and> \<not> token_active l \<longrightarrow>
        route h ep e req now = (e, Response 403 Token_deactivated))
   \<and> (location_token req = Some t \<and> t \<noteq> [] \<and> unique_tokens e
        \<and> l \<in> set (printer_location_table e) \<and> access_token l = Some t \<and> is_active l
        \<and> token_active l \<longrightarrow>
        (\<exists>e' r. route h ep e req now = (e', Returned r)))
   \<and> (snd (route h ep e req now) = Returned r \<longrightarrow>
        (\<exists>t' l'. location_token req = Some t' \<and> t' \<noteq> []
           \<and> l' \<in> set (printer_location_table e) \<and> access_token l' = Some t'
           \<and> is_active l' \<and> token_active l'))"
proof (intro conjI impI)
  assume "location_token req = None \<or> location_token req = Some []"
  then show "route h ep e req now = (e, Response 401 Token_required)"
    unfolding route_def by (rule validate_no_token)
next
  assume "location_token req = Some t \<and> t \<noteq> [] \<and> active_locations_with_token e t = []"
  then show "route h ep e req now = (e, Response 403 Token_invalid)"
    by (simp add: route_def validate_unknown_token)
next
  assume a: "location_token req = Some t \<and> t \<noteq> [] \<and> unique_tokens e
        \<and> l \<in> set (printer_location_table e) \<and> access_token l = Some t \<and> is_active l
        \<and> \<not> token_active l"
  then obtain ls where "active_locations_with_token e t = l # ls"
    using unique_token_first by blast
  with a show "route h ep e req now = (e, Response 403 Token_deactivated)"
    by (simp add: route_def validate_inactive_token [of req t e l ls])
next
  assume a: "location_token req = Some t \<and> t \<noteq> [] \<and> unique_tokens e
        \<and> l \<in> set (printer_location_table e) \<and> access_token l = Some t \<and> is_active l
        \<and> token_active l"
  then obtain ls where "active_locations_with_token e t = l # ls"
    using unique_token_first by blast
  with a show "\<exists>e' r. route h ep e req now = (e', Returned r)"
    using validate_active_token [of req t e l ls "endpoint_body h ep" now]
    by (simp add: route_def)
next
  assume "snd (route h ep e req now) = Returned r"
  then obtain t' l' ls where t': "location_token req = Some t'" "t' \<noteq> []"
    and l': "active_locations_with_token e t' = l' # ls" "token_active l'"
    using validate_returned [of "endpoint_body h ep" e req now r]
    by (auto simp: route_def)
  from l'(1) have "l' \<in> set (active_locations_with_token e t')" by simp
  then have "l' \<in> set (printer_location_table e) \<and> access_token l' = Some t' \<and> is_active l'"
    by (simp add: active_locations_with_token_def)
  with t' l'(2) show "\<exists>t' l'. location_token req = Some t' \<and> t' \<noteq> []
           \<and> l' \<in> set (printer_location_table e) \<and> access_token l' = Some t'
           \<and> is_active l' \<and> token_active l'"
    by blast
qed

theorem route_token_authenticated_witness:
  "route quiet_host Sync_printers api_env (token_request None) 100
     = (api_env, Response 401 Token_required)
   \<and> route quiet_host Sync_readings api_env (token_request (Some ''tok-missing'')) 100
     = (api_env, Response 403 Token_invalid)
   \<and> route quiet_host Sync_consumables api_env (token_request (Some ''tok-cerrada'')) 100
     = (api_env, Response 403 Token_invalid)
   \<and> route quiet_host Sync_alerts api_env (token_request (Some ''tok-sur'')) 100
     = (api_env, Response 403 Token_deactivated)
   \<and> (\<exists>e' r. route quiet_host Sync_printers api_env (token_request (Some ''tok-central'')) 100
         = (e', Returned r))"
proof -
  have facts: "location_token (token_request None) = None"
    "active_locations_with_token api_env ''tok-missing'' = []"
    "active_locations_with_token api_env ''tok-cerrada'' = []"
    "unique_tokens api_env"
    by code_simp+
  have sur: "location_row 3 ''Sur'' 8 ''tok-sur'' True False \<in> set (printer_location_table api_env)
      \<and> access_token (location_row 3 ''Sur'' 8 ''tok-sur'' True False) = Some ''tok-sur''
      \<and> is_active (location_row 3 ''Sur'' 8 ''tok-sur'' True False)
      \<and> \<not> token_active (location_row 3 ''Sur'' 8 ''tok-sur'' True False)"
    by code_simp
  have central: "location_row 1 ''Central'' 7 ''tok-central'' True True \<in> set (printer_location_table api_env)
      \<and> access_token (location_row 1 ''Central'' 7 ''tok-central'' True True) = Some ''tok-central''
      \<and> is_active (location_row 1 ''Central'' 7 ''tok-central'' True True)
      \<and> token_active (location_row 1 ''Central'' 7 ''tok-central'' True True)"
    by code_simp
  have 1: "route quiet_host Sync_printers api_env (token_request None) 100
     = (api_env, Response 401 Token_required)"
    using route_token_authenticated [of "token_request None" quiet_host Sync_printers api_env 100]
      facts(1) by simp
  have 2: "route quiet_host Sync_readings api_env (token_request (Some ''tok-missing'')) 100
     = (api_env, Response 403 Token_invalid)"
    using route_token_authenticated
            [of "token_request (Some ''tok-missing'')" quiet_host Sync_readings api_env 100
                "''tok-missing''"]
      facts(2) by (simp add: token_request_def)
  have 3: "route quiet_host Sync_consumables api_env (token_request (Some ''tok-cerrada'')) 100
     = (api_env, Response 403 Token_invalid)"
    using route_token_authenticated
            [of "token_request (Some ''tok-cerrada'')" quiet_host Sync_consumables api_env 100
                "''tok-cerrada''"]
      facts(3) by (simp add: token_request_def)
  have 4: "route quiet_host Sync_alerts api_env (token_request (Some ''tok-sur'')) 100
     = (api_env, Response 403 Token_deactivated)"
    using route_token_authenticated
            [of "token_request (Some ''tok-sur'')" quiet_host Sync_alerts api_env 100
                "''tok-sur''" "location_row 3 ''Sur'' 8 ''tok-sur'' True False"]
      facts(4) sur by (simp add: token_request_def)
  have 5: "\<exists>e' r. route quiet_host Sync_printers api_env (token_request (Some ''tok-central'')) 100
         = (e', Returned r)"
    using route_token_authenticated
            [of "token_request (Some ''tok-central'')" quiet_host Sync_printers api_env 100
                "''tok-central''" "location_row 1 ''Central'' 7 ''tok-central'' True True"]
      facts(4) central by (simp add: token_request_def)
  from 1 2 3 4 5 show ?thesis by blast
qed


theorem route_empty_token:
  "active_locations_with_token api_env [] = []
   \<and> snd (route quiet_host Sync_readings api_env (token_request (Some [])) 100)
       = Response 401 Token_required"
  by code_simp

section \<open>The loop over the items of a payload\<close>

lemma py_get_object: "is_object item \<Longrightarrow> \<exists>v. py_get item key dflt = Inr v"
  by (cases item) (simp_all add: is_object_def)

lemma py_get_not_object: "\<not> is_object item \<Longrightarrow> py_get item key dflt = Inl Attribute_error"
  by (cases item) (simp_all add: is_object_def)

lemma sync_items_objects:
  "\<forall>item\<in>set items. is_object item \<Longrightarrow> \<exists>st'. sync_items body key st items = Inr st'"
proof (induction items arbitrary: st)
  case Nil
  then show ?case by simp
next
  case (Cons item items)
  obtain st1 r where b: "body st item = (st1, r)" by (cases "body st item")
  from Cons.prems have "is_object item" by simp
  then obtain v where v: "py_get item key (JStr ''unknown'') = Inr v"
    using py_get_object by blast
  from Cons.prems have rest: "\<forall>item\<in>set items. is_object item" by simp
  show ?case
  proof (cases r)
    case None
    with b Cons.IH [OF rest, of st1] show ?thesis by simp
  next
    case (Some err)
    with b v Cons.IH [OF rest, of "st1\<lparr>st_errors := st_errors st1 @ [Processing_error err]\<rparr>"]
    show ?thesis by simp
  qed
qed

lemma sync_items_recorded:
  assumes "is_object item" "body st item = (st1, Some err)"
  shows "sync_items body key st (item # items)
         = sync_items body key (st1\<lparr>st_errors := st_errors st1 @ [Processing_error err]\<rparr>) items"
proof -
  from assms(1) obtain v where "py_get item key (JStr ''unknown'') = Inr v"
    using py_get_object by blast
  with assms(2) show ?thesis by simp
qed

lemma sync_items_escapes:
  assumes "\<not> is_object item" "body st item = (st1, Some err)"
  shows "sync_items body key st (item # items) = Inl (st_env st1, Attribute_error)"
  using assms by (simp add: py_get_not_object)

lemma sync_printer_not_object:
  "\<not> is_object item \<Longrightarrow> sync_printer h location now st item = (st, Some Attribute_error)"
  by (cases item) (simp_all add: is_object_def sync_printer_def)

lemma sync_reading_not_object:
  "\<not> is_object item \<Longrightarrow> sync_reading h location now st item = (st, Some Attribute_error)"
  by (cases item) (simp_all add: is_object_def sync_reading_def)

lemma sync_consumable_not_object:
  "\<not> is_object item \<Longrightarrow> sync_consumable h location now st item = (st, Some Attribute_error)"
  by (cases item) (simp_all add: is_object_def sync_consumable_def)

lemma sync_alert_not_object:
  "\<not> is_object item \<Longrightarrow> sync_alert h location now st item = (st, Some Attribute_error)"
  by (cases item) (simp_all add: is_object_def sync_alert_def)

lemma response_status:
  "make_response location counts errors = Sync_result resp \<Longrightarrow>
   (resp_status resp = ''success'' \<longleftrightarrow> errors = [])
   \<and> (resp_status resp = ''partial_success'' \<longleftrightarrow> errors \<noteq> [])
   \<and> (resp_errors resp = (if errors = [] then None else Some errors))"
  by (auto simp: make_response_def)

text \<open>
  Claim C6. The status of a response is 'success' exactly when no item produced an
  error and 'partial_success' otherwise, an exception outside the loop gives the error
  response, and an exception raised for an item that is a JSON object is recorded while
  the loop goes on (the lemmas above). For an item that is not an object the handler
  fails itself: its message is built with \<^verbatim>\<open>item.get(..., 'unknown')\<close>, which raises
  again, the loop is left, and the endpoint answers \<^verbatim>\<open>{'status': 'error'}\<close> without
  looking at the remaining items. Below, the payload whose items are the number 5 and a
  new printer gets the error response and creates nothing, although the printer alone is
  created and an empty object before it is recorded as an error.
\<close>

theorem sync_item_handler_escapes:
  "snd (route quiet_host Sync_printers api_env
          (central_request (JObj [(''printers'', JArr [new_printer_item])])) 100)
     = Returned (Sync_result
         \<lparr>resp_status = ''success'', resp_location = ''Central'',
          resp_counts = [(''created'', 1), (''updated'', 0), (''total'', 1), (''processed'', 1)],
          resp_errors = None\<rparr>)
   \<and> snd (route quiet_host Sync_printers api_env
            (central_request (JObj [(''printers'', JArr [JObj [], new_printer_item])])) 100)
     = Returned (Sync_result
         \<lparr>resp_status = ''partial_success'', resp_location = ''Central'',
          resp_counts = [(''created'', 1), (''updated'', 0), (''total'', 2), (''processed'', 1)],
          resp_errors = Some [Missing_ip]\<rparr>)
   \<and> snd (route quiet_host Sync_printers api_env
            (central_request (JObj [(''printers'', JArr [JNum 5, new_printer_item])])) 100)
     = Returned (Sync_error Attribute_error)
   \<and> printer_device_table
        (fst (route quiet_host Sync_printers api_env
                (central_request (JObj [(''printers'', JArr [JNum 5, new_printer_item])])) 100))
     = printer_device_table api_env
   \<and> snd (route quiet_host Sync_readings api_env
            (central_request (JObj [(''readings'', JArr [JStr ''x'']) ])) 100)
     = Returned (Sync_error Attribute_error)
   \<and> snd (route quiet_host Sync_consumables api_env
            (central_request (JObj [(''consumables'', JArr [JNull])])) 100)
     = Returned (Sync_error Attribute_error)
   \<and> snd (route quiet_host Sync_alerts api_env
            (central_request (JObj [(''alerts'', JArr [JArr []])])) 100)
     = Returned (Sync_error Attribute_error)"
  by code_simp

section \<open>Requests are scoped to the location of their token\<close>

subsection \<open>Printers\<close>















subsection \<open>Readings\<close>


lemma at_location_keys: "at_location e lid pid \<longleftrightarrow> (pid, Some lid) \<in> set (printer_keys e)"
  by (auto simp: at_location_def printer_keys_def)



lemma reading_inv_scoped: "reading_inv e lid e' \<Longrightarrow> readings_scoped e lid e'"
  by (auto simp: reading_inv_def readings_scoped_def)











lemma reading_inv_printer:
  assumes "reading_inv e0 lid e" "p \<in> set (printer_device_table e)" "printer_location_id p = Some lid"
  shows "at_location e0 lid (printer_id p)"
proof -
  from assms(2,3) have "(printer_id p, Some lid) \<in> set (printer_keys e)"
    by (force simp: printer_keys_def)
  with assms(1) show ?thesis by (simp add: reading_inv_def at_location_keys)
qed



subsection \<open>Consumables and alerts\<close>












subsection \<open>Items that name a printer the location does not have\<close>














subsection \<open>The claim\<close>










section \<open>Results about the alert severities\<close>

text \<open>
  Claim C10. \<^verbatim>\<open>normalize_severity\<close> is a total function on strings whose result is always
  one of low, medium, high, critical: info becomes low, warning becomes medium, error
  becomes high, critical stays critical, low, medium and high are unchanged, and every
  other string becomes medium.
\<close>

theorem normalize_severity_total:
  "normalize_severity s \<in> {''low'', ''medium'', ''high'', ''critical''}
   \<and> normalize_severity ''info'' = ''low''
   \<and> normalize_severity ''warning'' = ''medium''
   \<and> normalize_severity ''error'' = ''high''
   \<and> normalize_severity ''critical'' = ''critical''
   \<and> normalize_severity ''low'' = ''low''
   \<and> normalize_severity ''medium'' = ''medium''
   \<and> normalize_severity ''high'' = ''high''
   \<and> (s \<notin> {''info'', ''warning'', ''error'', ''critical'', ''low'', ''medium'', ''high''}
        \<longrightarrow> normalize_severity s = ''medium'')"
  by (simp add: normalize_severity_def severity_map_def)

theorem normalize_severity_total_witness:
  "normalize_severity ''fatal'' \<in> {''low'', ''medium'', ''high'', ''critical''}
   \<and> ''fatal'' \<notin> {''info'', ''warning'', ''error'', ''critical'', ''low'', ''medium'', ''high''}
   \<and> normalize_severity ''fatal'' = ''medium''"
  using normalize_severity_total [of "''fatal''"] by simp


end
